theory Spec2Isabelle
  imports Main "HOL-Library.Char_ord" "HOL-Library.List_Lexorder" "HOL-Library.Monad_Syntax"
begin

section \<open>The ceph_refresh command of Calamari: a shallow embedding\<close>

text \<open>
  The source is \<^verbatim>\<open>webapp/calamari/ceph/management/commands/ceph_refresh.py\<close>
  (Python 2, Django). The embedding keeps the names of the source; a leading underscore
  is dropped (\<^verbatim>\<open>_short_addr\<close> is \<open>short_addr\<close>).

  \<^item> Python exceptions are values of \<open>exn\<close>; a computation that may raise returns
    \<open>exn + 'a\<close>, and a method of \<^verbatim>\<open>ModelAdapter\<close> that mutates the adapter
    returns \<open>exn \<times> state + state\<close>: \<open>Inl (e, s)\<close> is "raised \<open>e\<close>, the objects
    and the store being in state \<open>s\<close> at that moment".
  \<^item> The JSON documents of the REST API are typed records holding the keys the code
    reads; a document without one of these keys is outside the model.
  \<^item> The Django store is a record of tables (lists of rows); queries are filters.
\<close>

subsection \<open>Exceptions\<close>

datatype exn =
    RequestException   \<comment> \<open>the base class of every error of the requests library\<close>
  | ValueError
  | KeyError
  | RuntimeError       \<comment> \<open>maximum recursion depth exceeded\<close>
  | AttributeError
  | SocketError        \<comment> \<open>\<^verbatim>\<open>socket.error\<close> and its subclasses (timeout, refused, unknown host)\<close>
  | MultipleObjectsReturned

subsection \<open>Strings\<close>

text \<open>\<^verbatim>\<open>s.startswith(p)\<close>\<close>

fun startswith :: "string \<Rightarrow> string \<Rightarrow> bool" where
  "startswith s [] = True"
| "startswith [] (p # ps) = False"
| "startswith (c # cs) (p # ps) = (c = p \<and> startswith cs ps)"

text \<open>
  \<^verbatim>\<open>s.split(sep)\<close>: the pieces of \<open>s\<close> between the occurrences of \<open>sep\<close>, found
  from the left and not overlapping. Every call of the source passes a literal, non-empty
  separator (Python raises ValueError for an empty one).
\<close>

function split_from :: "string \<Rightarrow> string \<Rightarrow> string \<Rightarrow> string list" where
  "split_from sep cur [] = [cur]"
| "split_from sep cur (c # cs) =
     (if sep \<noteq> [] \<and> startswith (c # cs) sep
      then cur # split_from sep [] (drop (length sep) (c # cs))
      else split_from sep (cur @ [c]) cs)"
  by pat_completeness auto
termination
  by (relation "measure (\<lambda>(sep, cur, s). length s)") (auto simp: neq_Nil_conv)

definition split :: "string \<Rightarrow> string \<Rightarrow> string list" where
  "split s sep = split_from sep [] s"

text \<open>
  \<^verbatim>\<open>s.lower()\<close> on a unicode string. A character of the embedding is a code point
  below 256 (HOL's \<open>char\<close>), that is Latin-1; a string with a code point beyond that is
  outside the embedding. On these code points Python lowers the letters A to Z and the
  capitals U+00C0 to U+00DE other than the multiplication sign U+00D7, each to the code
  point 32 above it, and keeps every other character.
\<close>

definition upper_chars :: string where
  "upper_chars = ''ABCDEFGHIJKLMNOPQRSTUVWXYZ'' @
     [CHR 0xC0, CHR 0xC1, CHR 0xC2, CHR 0xC3, CHR 0xC4, CHR 0xC5, CHR 0xC6, CHR 0xC7,
      CHR 0xC8, CHR 0xC9, CHR 0xCA, CHR 0xCB, CHR 0xCC, CHR 0xCD, CHR 0xCE, CHR 0xCF,
      CHR 0xD0, CHR 0xD1, CHR 0xD2, CHR 0xD3, CHR 0xD4, CHR 0xD5, CHR 0xD6,
      CHR 0xD8, CHR 0xD9, CHR 0xDA, CHR 0xDB, CHR 0xDC, CHR 0xDD, CHR 0xDE]"

definition lower_chars :: string where
  "lower_chars = ''abcdefghijklmnopqrstuvwxyz'' @
     [CHR 0xE0, CHR 0xE1, CHR 0xE2, CHR 0xE3, CHR 0xE4, CHR 0xE5, CHR 0xE6, CHR 0xE7,
      CHR 0xE8, CHR 0xE9, CHR 0xEA, CHR 0xEB, CHR 0xEC, CHR 0xED, CHR 0xEE, CHR 0xEF,
      CHR 0xF0, CHR 0xF1, CHR 0xF2, CHR 0xF3, CHR 0xF4, CHR 0xF5, CHR 0xF6,
      CHR 0xF8, CHR 0xF9, CHR 0xFA, CHR 0xFB, CHR 0xFC, CHR 0xFD, CHR 0xFE]"

definition lower_char :: "char \<Rightarrow> char" where
  "lower_char c =
     (case map_of (zip upper_chars lower_chars) c of
        Some l \<Rightarrow> l
      | None \<Rightarrow> c)"

definition lower :: "string \<Rightarrow> string" where
  "lower s = map lower_char s"

text \<open>\<^verbatim>\<open>"%d" % n\<close> and \<^verbatim>\<open>"%s" % n\<close> for an integer \<open>n\<close>: its decimal digits.\<close>

fun str_nat :: "nat \<Rightarrow> string" where
  "str_nat n =
     (if n < 10 then [''0123456789'' ! n]
      else str_nat (n div 10) @ [''0123456789'' ! (n mod 10)])"

definition str_int :: "int \<Rightarrow> string" where
  "str_int i = (if i < 0 then CHR ''-'' # str_nat (nat (- i)) else str_nat (nat i))"

definition isdigit :: "char \<Rightarrow> bool" where
  "isdigit c = (c \<in> set ''0123456789'')"

text \<open>The whitespace of \<^verbatim>\<open>str.strip\<close> and of the pattern \<^verbatim>\<open>\S\<close>:
  space, tab, newline, carriage return, vertical tab, form feed.\<close>

definition isspace :: "char \<Rightarrow> bool" where
  "isspace c = (c \<in> set [CHR '' '', CHR 0x09, CHR 0x0A, CHR 0x0D, CHR 0x0B, CHR 0x0C])"

definition digit_val :: "char \<Rightarrow> nat" where
  "digit_val c = (case map_of (zip ''0123456789'' [0, 1, 2, 3, 4, 5, 6, 7, 8, 9]) c of
                    Some d \<Rightarrow> d
                  | None \<Rightarrow> 0)"

text \<open>The value of a string of decimal digits.\<close>

definition nat_of_digits :: "string \<Rightarrow> nat" where
  "nat_of_digits ds = foldl (\<lambda>acc c. 10 * acc + digit_val c) 0 ds"

text \<open>
  \<^verbatim>\<open>int(s)\<close> on a string: surrounding whitespace is dropped, a sign may come first,
  and the rest must be decimal digits; anything else raises ValueError.
\<close>

definition py_int :: "string \<Rightarrow> exn + int" where
  "py_int s =
     (let t = rev (dropWhile isspace (rev (dropWhile isspace s)));
          (neg, ds) = (case t of
                         [] \<Rightarrow> (False, [])
                       | c # r \<Rightarrow> if c = CHR ''-'' then (True, r)
                                  else if c = CHR ''+'' then (False, r)
                                  else (False, t))
      in if ds \<noteq> [] \<and> list_all isdigit ds
         then Inr (if neg then - int (nat_of_digits ds) else int (nat_of_digits ds))
         else Inl ValueError)"

text \<open>A default dictionary of integers, \<^verbatim>\<open>defaultdict(int)\<close>: \<^verbatim>\<open>d[k] += n\<close>.\<close>

definition dget :: "('k \<rightharpoonup> int) \<Rightarrow> 'k \<Rightarrow> int" where
  "dget d k = (case d k of None \<Rightarrow> 0 | Some v \<Rightarrow> v)"

definition dadd :: "('k \<rightharpoonup> int) \<Rightarrow> 'k \<Rightarrow> int \<Rightarrow> ('k \<rightharpoonup> int)" where
  "dadd d k n = d(k \<mapsto> dget d k + n)"

subsection \<open>The documents of the REST API\<close>

text \<open>Values the code passes through without looking inside.\<close>

datatype json = JNull | JBool bool | JInt int | JStr string | JList "json list"
  | JDict "(string \<times> json) list"

text \<open>An entry of \<^verbatim>\<open>osd dump\<close>'s list \<^verbatim>\<open>osds\<close>. The flags \<^verbatim>\<open>up\<close> and
  \<^verbatim>\<open>in\<close> are JSON numbers: Python reads a number as true when it is not zero.\<close>

record osd_entry =
  osd_osd :: int
  osd_uuid :: string
  osd_up :: int
  osd_in :: int
  osd_up_from :: int
  osd_public_addr :: string
  osd_cluster_addr :: string
  osd_heartbeat_back_addr :: string
  osd_heartbeat_front_addr :: string

text \<open>An entry of \<^verbatim>\<open>osd dump\<close>'s list \<^verbatim>\<open>pools\<close>.\<close>

record osd_map_pool =
  omp_pool :: int
  omp_pool_name :: string
  omp_quota_max_bytes :: int
  omp_quota_max_objects :: int

record osd_dump =
  od_osds :: "osd_entry list"
  od_pools :: "osd_map_pool list"

text \<open>\<^verbatim>\<open>df\<close>: the totals (in KiB) and the statistics of each pool.\<close>

record df_stats =
  df_total_used :: int
  df_total_space :: int
  df_total_avail :: int

record df_pool_stats =
  dps_bytes_used :: int
  dps_objects :: int

record df_pool =
  dfp_id :: int
  dfp_stats :: df_pool_stats

record df_doc =
  df_stats_of :: df_stats
  df_pools_of :: "df_pool list"

record health_doc =
  hd_overall_status :: json
  hd_detail :: json
  hd_summary :: json

text \<open>A monitor of the monitor map.\<close>

record mon =
  mon_rank :: int
  mon_name :: string
  mon_addr :: string

record mdsmap =
  mds_max :: int
  mds_up :: int
  mds_in :: int

record pg_state_entry =
  pse_state_name :: string
  pse_count :: int

record status_doc =
  st_mdsmap :: mdsmap
  st_mons :: "mon list"            \<comment> \<open>\<^verbatim>\<open>status['monmap']['mons']\<close>\<close>
  st_quorum :: "int list"
  st_pgs_by_state :: "pg_state_entry list"   \<comment> \<open>\<^verbatim>\<open>status['pgmap']['pgs_by_state']\<close>\<close>

text \<open>An entry of the brief PG dump.\<close>

record pg_entry =
  pge_pgid :: string
  pge_acting :: "int list"
  pge_up :: "int list"
  pge_state :: string

record lspool =
  lsp_poolnum :: int
  lsp_poolname :: string

text \<open>A node of \<^verbatim>\<open>osd tree\<close>.\<close>

record crush_node =
  cn_id :: int
  cn_name :: string
  cn_type :: string
  cn_children :: "int list"

text \<open>
  \<^verbatim>\<open>CephRestClient\<close>: what each \<^verbatim>\<open>get_*\<close> method returns or raises. The
  \<^verbatim>\<open>memoize\<close> decorator keeps the first answer of an endpoint, and a raised
  exception ends the pass, so within one pass an endpoint has one outcome.
\<close>

record client =
  get_status :: "exn + status_doc"
  get_space_stats :: "exn + df_doc"
  get_health :: "exn + health_doc"
  get_osds :: "exn + osd_dump"
  get_mon_status :: "exn + mon list"     \<comment> \<open>\<^verbatim>\<open>mon_status['monmap']['mons']\<close>\<close>
  get_pg_pools :: "exn + (string \<times> int) list list"  \<comment> \<open>the \<^verbatim>\<open>stat_sum\<close> of each pool\<close>
  get_pools :: "exn + lspool list"
  get_pg_stats :: "exn + pg_entry list"
  get_osd_tree :: "exn + crush_node list"  \<comment> \<open>\<^verbatim>\<open>osd_tree['nodes']\<close>\<close>

subsection \<open>The world outside: name service, sockets, settings\<close>

text \<open>A connected socket; the argument is what its \<^verbatim>\<open>close()\<close> raises, if anything.\<close>

datatype socket = Socket "exn option"

text \<open>
  \<open>gethostbyaddr\<close> is \<^verbatim>\<open>socket.gethostbyaddr\<close>: the canonical name and the
  aliases, or \<open>None\<close> when it raises \<^verbatim>\<open>socket.error\<close>.
  \<open>create_connection\<close> is \<^verbatim>\<open>socket.create_connection((host, port), timeout)\<close>,
  which returns a socket or raises. \<open>recursion_limit\<close> is the depth at which Python
  gives up a recursion with RuntimeError. \<open>CRUSH_OSD_TYPE\<close> and \<open>CRUSH_HOST_TYPE\<close>
  are the two constants of \<^verbatim>\<open>calamari.settings\<close>, a module that is not part of the
  source at hand: they are parameters.
\<close>

record env =
  gethostbyaddr :: "string \<Rightarrow> (string \<times> string list) option"
  create_connection :: "string \<Rightarrow> nat \<Rightarrow> exn + socket"
  recursion_limit :: nat
  CRUSH_OSD_TYPE :: string
  CRUSH_HOST_TYPE :: string
  format_exc :: "exn \<Rightarrow> string"           \<comment> \<open>\<^verbatim>\<open>traceback.format_exc()\<close>\<close>
  rest_api :: "string \<Rightarrow> client"          \<comment> \<open>the REST server behind an \<^verbatim>\<open>api_base_url\<close>\<close>

subsection \<open>The severity counters\<close>

record severity =
  sev_count :: int
  sev_states :: "string \<rightharpoonup> int"

record tiers =
  t_ok :: severity
  t_warn :: severity
  t_critical :: severity

subsubsection \<open>Placement groups\<close>

definition CRIT_STATES :: "string list" where
  "CRIT_STATES = [''stale'', ''down'', ''peering'', ''inconsistent'', ''incomplete'']"

definition WARN_STATES :: "string list" where
  "WARN_STATES = [''creating'', ''recovery_wait'', ''recovering'', ''replay'',
     ''splitting'', ''degraded'', ''remapped'', ''scrubbing'', ''repair'',
     ''wait_backfill'', ''backfilling'', ''backfill_toofull'']"

definition OKAY_STATES :: "string list" where
  "OKAY_STATES = [''active'', ''clean'']"

text \<open>
  \<^verbatim>\<open>classifier.intersection(states)\<close>: the labels of the classifier that occur in
  \<open>states\<close>. The source's classifiers are sets; here they are the lists of their
  literals, without repetition, and the loop over the intersection runs in that order
  (the additions it makes commute).
\<close>

definition intersection :: "string list \<Rightarrow> string list \<Rightarrow> string list" where
  "intersection classifier states = filter (\<lambda>s. s \<in> set states) classifier"

text \<open>\<^verbatim>\<open>stats\<close> is the two-element list \<^verbatim>\<open>[count, defaultdict(int)]\<close>.\<close>

type_synonym pg_stats = "int \<times> (string \<rightharpoonup> int)"

text \<open>\<^verbatim>\<open>for state in matched_states: stats[1][state] += count\<close>\<close>

fun add_matched :: "(string \<rightharpoonup> int) \<Rightarrow> int \<Rightarrow> string list \<Rightarrow> (string \<rightharpoonup> int)" where
  "add_matched d count [] = d"
| "add_matched d count (state # matched_states) =
     add_matched (dadd d state count) count matched_states"

text \<open>Returns the boolean of the source and the updated \<^verbatim>\<open>stats\<close>.\<close>

definition pg_counter_helper ::
  "string list \<Rightarrow> string list \<Rightarrow> int \<Rightarrow> pg_stats \<Rightarrow> bool \<times> pg_stats" where
  "pg_counter_helper states classifier count stats =
     (let matched_states = intersection classifier states
      in if length matched_states > 0
         then (True, (fst stats + count, add_matched (snd stats) count matched_states))
         else (False, stats))"

text \<open>The body of the loop of \<^verbatim>\<open>_calculate_pg_counters\<close>, on \<open>(ok, warn, crit)\<close>.\<close>

definition pg_counters_step ::
  "pg_stats \<times> pg_stats \<times> pg_stats \<Rightarrow> pg_state_entry \<Rightarrow> pg_stats \<times> pg_stats \<times> pg_stats" where
  "pg_counters_step acc pg_state =
     (case acc of (ok, warn, crit) \<Rightarrow>
      let count = pse_count pg_state;
          states = map lower (split (pse_state_name pg_state) ''+'')
      in case pg_counter_helper states CRIT_STATES count crit of
           (True, crit') \<Rightarrow> (ok, warn, crit')
         | (False, _) \<Rightarrow>
             (case pg_counter_helper states WARN_STATES count warn of
                (True, warn') \<Rightarrow> (ok, warn', crit)
              | (False, _) \<Rightarrow>
                  (case pg_counter_helper states OKAY_STATES count ok of
                     (True, ok') \<Rightarrow> (ok', warn, crit)
                   | (False, _) \<Rightarrow> (ok, warn, crit))))"

definition calculate_pg_counters :: "client \<Rightarrow> exn + tiers" where
  "calculate_pg_counters c =
     (case get_status c of
        Inl e \<Rightarrow> Inl e
      | Inr status \<Rightarrow>
          (case foldl pg_counters_step ((0, Map.empty), (0, Map.empty), (0, Map.empty))
                  (st_pgs_by_state status) of
             (ok, warn, crit) \<Rightarrow>
               Inr \<lparr>t_ok = \<lparr>sev_count = fst ok, sev_states = snd ok\<rparr>,
                    t_warn = \<lparr>sev_count = fst warn, sev_states = snd warn\<rparr>,
                    t_critical = \<lparr>sev_count = fst crit, sev_states = snd crit\<rparr>\<rparr>))"

subsubsection \<open>OSDs\<close>

record osd_tally =
  total :: int
  not_up_not_in :: int
  not_up_in :: int
  up_not_in :: int
  up_in :: int

text \<open>The body of the loop of \<^verbatim>\<open>_calculate_osd_counters\<close>.\<close>

definition tally_osd :: "osd_tally \<Rightarrow> osd_entry \<Rightarrow> osd_tally" where
  "tally_osd counters osd =
     (let up = (osd_up osd \<noteq> 0); inn = (osd_in osd \<noteq> 0)
      in if \<not> up \<and> \<not> inn then counters\<lparr>not_up_not_in := not_up_not_in counters + 1\<rparr>
         else if \<not> up \<and> inn then counters\<lparr>not_up_in := not_up_in counters + 1\<rparr>
         else if up \<and> \<not> inn then counters\<lparr>up_not_in := up_not_in counters + 1\<rparr>
         else if up \<and> inn then counters\<lparr>up_in := up_in counters + 1\<rparr>
         else counters)"

definition calculate_osd_counters :: "client \<Rightarrow> exn + tiers" where
  "calculate_osd_counters c =
     (case get_osds c of
        Inl e \<Rightarrow> Inl e
      | Inr osd_map \<Rightarrow>
          (let osds = od_osds osd_map;
               counters = foldl tally_osd
                 \<lparr>total = int (length osds), not_up_not_in = 0, not_up_in = 0,
                  up_not_in = 0, up_in = 0\<rparr> osds;
               warn_count = up_not_in counters + not_up_in counters;
               warn_states1 = (if up_not_in counters > 0
                               then [''up/out'' \<mapsto> up_not_in counters] else Map.empty);
               warn_states = (if not_up_in counters > 0
                              then warn_states1(''down/in'' \<mapsto> not_up_in counters)
                              else warn_states1)
           in Inr \<lparr>t_ok = \<lparr>sev_count = up_in counters,
                           sev_states = (if up_in counters = 0 then Map.empty
                                         else [''up/in'' \<mapsto> up_in counters])\<rparr>,
                   t_warn = \<lparr>sev_count = warn_count,
                             sev_states = (if warn_count = 0 then Map.empty else warn_states)\<rparr>,
                   t_critical = \<lparr>sev_count = not_up_not_in counters,
                                 sev_states = (if not_up_not_in counters = 0 then Map.empty
                                               else [''down/out'' \<mapsto> not_up_not_in counters])\<rparr>\<rparr>))"

subsubsection \<open>Metadata servers\<close>

record mds_counters =
  mdc_total :: int
  mdc_up_in :: int
  mdc_up_not_in :: int
  mdc_not_up_not_in :: int

definition calculate_mds_counters :: "client \<Rightarrow> exn + mds_counters" where
  "calculate_mds_counters c =
     (case get_status c of
        Inl e \<Rightarrow> Inl e
      | Inr status \<Rightarrow>
          (let mdsmap = st_mdsmap status;
               total = mds_max mdsmap; up = mds_up mdsmap; inn = mds_in mdsmap
           in Inr \<lparr>mdc_total = total, mdc_up_in = inn, mdc_up_not_in = up - inn,
                   mdc_not_up_not_in = total - up\<rparr>))"

subsubsection \<open>Pools\<close>

definition pool_counter_fields :: "string list" where
  "pool_counter_fields = [''num_objects_unfound'', ''num_objects_missing_on_primary'',
     ''num_deep_scrub_errors'', ''num_shallow_scrub_errors'',
     ''num_scrub_errors'', ''num_objects_degraded'']"

text \<open>A \<^verbatim>\<open>stat_sum\<close> dictionary is the list of its items.\<close>

definition calculate_pool_counters :: "client \<Rightarrow> exn + (string \<rightharpoonup> int)" where
  "calculate_pool_counters c =
     (case get_pg_pools c of
        Inl e \<Rightarrow> Inl e
      | Inr pools \<Rightarrow>
          (let counts = foldl (\<lambda>counts pool.
                           foldl (\<lambda>counts (key, val). dadd counts key (min val 1)) counts pool)
                         Map.empty pools;
               counts = counts |` set pool_counter_fields
           in Inr (counts(''total'' \<mapsto> int (length pools)))))"

subsubsection \<open>Monitors: the connection probe\<close>

definition MON_ADDR_IGNORES :: "string list" where
  "MON_ADDR_IGNORES = [''0.0.0.0'', ''0:0:0:0:0:0:0:0'', ''::'']"

text \<open>
  The two patterns, matched at the start of the string as \<^verbatim>\<open>re.match\<close> does.
  \<^verbatim>\<open>\d+\<close> is followed by a character that is no digit in both patterns, so the
  only run of digits that can match is the longest one.
\<close>

definition match_digits :: "string \<Rightarrow> (string \<times> string) option" where
  "match_digits s =
     (let ds = takeWhile isdigit s
      in if ds = [] then None else Some (ds, dropWhile isdigit s))"

definition match_char :: "char \<Rightarrow> string \<Rightarrow> string option" where
  "match_char c s = (case s of [] \<Rightarrow> None | x # xs \<Rightarrow> if x = c then Some xs else None)"

text \<open>\<^verbatim>\<open>:(?P<port>\d+)\/\<close>, the common end of both patterns; returns the port.\<close>

definition match_port :: "string \<Rightarrow> string option" where
  "match_port s = do {
     r \<leftarrow> match_char CHR '':'' s;
     (port, r) \<leftarrow> match_digits r;
     _ \<leftarrow> match_char CHR ''/'' r;
     Some port
   }"

text \<open>\<^verbatim>\<open>(?P<addr>\d+\.\d+\.\d+\.\d+):(?P<port>\d+)\/\<close>: the groups addr and port.\<close>

definition match_IPV4_RE :: "string \<Rightarrow> (string \<times> string) option" where
  "match_IPV4_RE s = do {
     (a, r) \<leftarrow> match_digits s;
     r \<leftarrow> match_char CHR ''.'' r;
     (b, r) \<leftarrow> match_digits r;
     r \<leftarrow> match_char CHR ''.'' r;
     (c, r) \<leftarrow> match_digits r;
     r \<leftarrow> match_char CHR ''.'' r;
     (d, r) \<leftarrow> match_digits r;
     port \<leftarrow> match_port r;
     Some (a @ ''.'' @ b @ ''.'' @ c @ ''.'' @ d, port)
   }"

text \<open>
  \<^verbatim>\<open>\[(?P<addr>\S+)\]:(?P<port>\d+)\/\<close>. \<^verbatim>\<open>\S+\<close> is greedy: it takes the
  whole run of non-space characters and gives characters back one at a time until the
  rest of the pattern matches. \<open>backtrack_IPV6 n r\<close> tries the lengths \<open>n\<close>, \<open>n - 1\<close>,
  ..., \<open>1\<close> for the group addr.
\<close>

fun backtrack_IPV6 :: "nat \<Rightarrow> string \<Rightarrow> (string \<times> string) option" where
  "backtrack_IPV6 0 r = None"
| "backtrack_IPV6 (Suc n) r =
     (case match_char CHR '']'' (drop (Suc n) r) \<bind> match_port of
        Some port \<Rightarrow> Some (take (Suc n) r, port)
      | None \<Rightarrow> backtrack_IPV6 n r)"

definition match_IPV6_RE :: "string \<Rightarrow> (string \<times> string) option" where
  "match_IPV6_RE s =
     (case match_char CHR ''['' s of
        None \<Rightarrow> None
      | Some r \<Rightarrow> backtrack_IPV6 (length (takeWhile (\<lambda>c. \<not> isspace c) r)) r)"

text \<open>
  The \<^verbatim>\<open>try\<close> block of \<^verbatim>\<open>try_mon_connect\<close>: what it returns or raises, the
  socket it has opened (the variable \<^verbatim>\<open>sock\<close>), and the connections it has
  attempted.
\<close>

definition mon_connect_body ::
  "env \<Rightarrow> (string \<times> string) option \<Rightarrow> (exn + bool) \<times> socket option \<times> (string \<times> nat) list" where
  "mon_connect_body E m =
     (case m of
        None \<Rightarrow> (Inl AttributeError, None, [])
      | Some (addr, port_group) \<Rightarrow>
          (let port = nat_of_digits port_group
           in if addr \<in> set MON_ADDR_IGNORES then (Inr False, None, [])
              else (case create_connection E addr port of
                      Inl e \<Rightarrow> (Inl e, None, [(addr, port)])
                    | Inr sock \<Rightarrow> (Inr True, Some sock, [(addr, port)]))))"

text \<open>
  \<^verbatim>\<open>try_mon_connect\<close>: the answer, and the connections attempted on the way.
  \<^verbatim>\<open>except Exception\<close> turns whatever the block raises into False; the
  \<^verbatim>\<open>finally\<close> clause closes the socket and swallows what closing raises.
\<close>

definition try_mon_connect :: "env \<Rightarrow> mon \<Rightarrow> bool \<times> (string \<times> nat) list" where
  "try_mon_connect E mon =
     (let addr = mon_addr mon;
          m = (case match_IPV4_RE addr of Some g \<Rightarrow> Some g | None \<Rightarrow> match_IPV6_RE addr)
      in case mon_connect_body E m of
           (outcome, sock, attempts) \<Rightarrow>
             (let closed = (case sock of
                              None \<Rightarrow> ()
                            | Some (Socket raised) \<Rightarrow> (case raised of None \<Rightarrow> () | Some _ \<Rightarrow> ()))
              in (case outcome of Inl e \<Rightarrow> False | Inr b \<Rightarrow> b, attempts)))"

text \<open>The body of the loop of \<^verbatim>\<open>_calculate_mon_counters\<close>, on \<open>(ok, warn, crit)\<close>.\<close>

definition mon_counters_step :: "env \<Rightarrow> int list \<Rightarrow> int \<times> int \<times> int \<Rightarrow> mon \<Rightarrow> int \<times> int \<times> int" where
  "mon_counters_step E quorum acc mon =
     (case acc of (ok, warn, crit) \<Rightarrow>
        if mon_rank mon \<in> set quorum then (ok + 1, warn, crit)
        else if fst (try_mon_connect E mon) then (ok, warn + 1, crit)
        else (ok, warn, crit + 1))"

definition calculate_mon_counters :: "env \<Rightarrow> client \<Rightarrow> exn + tiers" where
  "calculate_mon_counters E c =
     (case get_status c of
        Inl e \<Rightarrow> Inl e
      | Inr status \<Rightarrow>
          (case foldl (mon_counters_step E (st_quorum status)) (0, 0, 0) (st_mons status) of
             (ok, warn, crit) \<Rightarrow>
               Inr \<lparr>t_ok = \<lparr>sev_count = ok,
                            sev_states = (if ok = 0 then Map.empty else [''in'' \<mapsto> ok])\<rparr>,
                    t_warn = \<lparr>sev_count = warn,
                              sev_states = (if warn = 0 then Map.empty else [''up'' \<mapsto> warn])\<rparr>,
                    t_critical = \<lparr>sev_count = crit,
                                  sev_states = (if crit = 0 then Map.empty
                                                else [''out'' \<mapsto> crit])\<rparr>\<rparr>))"

subsection \<open>Host names: the CRUSH tree and reverse DNS\<close>

text \<open>
  \<^verbatim>\<open>find_descendants(cursor, fn)\<close>, the recursive helper of the property
  \<^verbatim>\<open>crush_osd_hostnames\<close>. The first argument is the number of nested calls Python
  still allows: at zero the call raises RuntimeError, which is what a cycle in the tree
  ends in. \<^verbatim>\<open>nodes_by_id[child_id]\<close> raises KeyError for an unknown child.
\<close>

fun find_descendants ::
  "nat \<Rightarrow> (int \<rightharpoonup> crush_node) \<Rightarrow> (crush_node \<Rightarrow> bool) \<Rightarrow> crush_node \<Rightarrow> exn + crush_node list"
and find_in_children ::
  "nat \<Rightarrow> (int \<rightharpoonup> crush_node) \<Rightarrow> (crush_node \<Rightarrow> bool) \<Rightarrow> int list \<Rightarrow> crush_node list
     \<Rightarrow> exn + crush_node list" where
  "find_descendants 0 nodes_by_id fn cursor = Inl RuntimeError"
| "find_descendants (Suc depth) nodes_by_id fn cursor =
     (if fn cursor then Inr [cursor]
      else find_in_children depth nodes_by_id fn (cn_children cursor) [])"
| "find_in_children depth nodes_by_id fn [] found = Inr found"
| "find_in_children depth nodes_by_id fn (child_id # children) found =
     (case nodes_by_id child_id of
        None \<Rightarrow> Inl KeyError
      | Some child \<Rightarrow>
          (case find_descendants depth nodes_by_id fn child of
             Inl e \<Rightarrow> Inl e
           | Inr sub \<Rightarrow> find_in_children depth nodes_by_id fn children (found @ sub)))"

text \<open>The loop over \<^verbatim>\<open>osd_tree["nodes"]\<close> that fills the dictionary.\<close>

fun crush_hosts ::
  "env \<Rightarrow> (int \<rightharpoonup> crush_node) \<Rightarrow> crush_node list \<Rightarrow> (string \<rightharpoonup> string)
     \<Rightarrow> exn + (string \<rightharpoonup> string)" where
  "crush_hosts E nodes_by_id [] hostnames = Inr hostnames"
| "crush_hosts E nodes_by_id (node # nodes) hostnames =
     (if cn_type node = CRUSH_HOST_TYPE E
      then (let host = cn_name node
            in if host = ''localhost'' then crush_hosts E nodes_by_id nodes hostnames
               else (case find_descendants (recursion_limit E) nodes_by_id
                            (\<lambda>c. cn_type c = CRUSH_OSD_TYPE E) node of
                       Inl e \<Rightarrow> Inl e
                     | Inr osds \<Rightarrow>
                         crush_hosts E nodes_by_id nodes
                           (foldl (\<lambda>h osd. h(cn_name osd \<mapsto> host)) hostnames osds)))
      else crush_hosts E nodes_by_id nodes hostnames)"

text \<open>
  The property \<^verbatim>\<open>crush_osd_hostnames\<close>: a dictionary from OSD name to host name,
  answering None for a name it does not hold. The source computes it at the first use
  and keeps it; the value is the same at every use within a pass, and an exception at the
  first use ends the pass. In \<^verbatim>\<open>nodes_by_id\<close> a later node replaces an earlier one
  of the same id.
\<close>

definition crush_osd_hostnames :: "env \<Rightarrow> client \<Rightarrow> exn + (string \<rightharpoonup> string)" where
  "crush_osd_hostnames E c =
     (case get_osd_tree c of
        Inl e \<Rightarrow> Inl e
      | Inr nodes \<Rightarrow>
          crush_hosts E (map_of (rev (map (\<lambda>n. (cn_id n, n)) nodes))) nodes Map.empty)"

definition reverse_dns :: "env \<Rightarrow> string \<Rightarrow> string option" where
  "reverse_dns E addr =
     (case gethostbyaddr E addr of
        None \<Rightarrow> None
      | Some (hostname, aliaslist) \<Rightarrow>
          (let osd_names = aliaslist @ [hostname];
               osd_shortnames = filter (\<lambda>name. CHR ''.'' \<notin> set name) osd_names
           in case osd_shortnames of
                short # _ \<Rightarrow> Some short
              | [] \<Rightarrow> (case osd_names of
                         first # _ \<Rightarrow> Some (hd (split first ''.''))
                       | [] \<Rightarrow> None)))"

definition short_addr :: "string \<Rightarrow> string" where
  "short_addr addr =
     (if startswith addr ''['' then drop 1 (hd (split addr '']:''))
      else hd (split addr '':''))"

subsection \<open>The store\<close>

datatype service_type = OSD | MON

text \<open>
  Modelled from the spec: the Django models \<^verbatim>\<open>Server\<close>, \<^verbatim>\<open>ServiceStatus\<close>,
  \<^verbatim>\<open>Pool\<close> and \<^verbatim>\<open>Cluster\<close> of \<^verbatim>\<open>ceph.models\<close>, a module that is not part of
  the source at hand. The fields are those the code reads and writes; the spec gives a
  Server its cluster, address, display name and host name, a ServiceStatus its owning
  server, kind, identity and display name, a Pool its identity, name, quota and usage.
  Every row has the primary key \<open>id\<close> Django adds. A ServiceStatus refers to its Server by
  a foreign key, and deleting a Server deletes the rows that refer to it, as Django does
  for a foreign key unless told otherwise.
\<close>

record server =
  srv_id :: nat
  srv_cluster :: nat
  srv_addr :: string
  srv_name :: "string option"
  srv_hostname :: "string option"

record service_status =
  ss_id :: nat
  ss_server :: nat
  ss_type :: service_type
  ss_service_id :: int
  ss_name :: "string option"

record pool =
  pool_row :: nat
  pool_cluster_id :: nat
  pool_pool_id :: int
  pool_name :: string
  pool_quota_max_bytes :: int
  pool_quota_max_objects :: int
  pool_used_bytes :: int
  pool_used_objects :: int

text \<open>The values a pass stores in the fields of a Cluster.\<close>

record space =
  used_bytes :: int
  capacity_bytes :: int
  free_bytes :: int

record health =
  overall_status :: json
  detail :: json
  summary :: json

record pg_snapshot =
  pgs_pgid :: string
  pgs_acting :: "int list"
  pgs_up :: "int list"
  pgs_state :: "string list"

text \<open>
  An element of \<^verbatim>\<open>cluster.osds\<close>: the \<^verbatim>\<open>OSD_FIELDS\<close> of the OSD map and the
  five keys \<^verbatim>\<open>fixup_osd\<close> adds. Python does not fix the order of
  \<^verbatim>\<open>list(a_set)\<close>; the lists made from sets hold their elements in the order of
  first insertion.
\<close>

record osd_snapshot =
  os_uuid :: string
  os_up :: int
  os_in :: int
  os_up_from :: int
  os_public_addr :: string
  os_cluster_addr :: string
  os_heartbeat_back_addr :: string
  os_heartbeat_front_addr :: string
  os_id :: int
  os_pg_states :: "string \<rightharpoonup> int"
  os_pg_count :: int
  os_pools :: "string list"
  os_host :: string

record counters =
  cnt_pool :: "string \<rightharpoonup> int"
  cnt_osd :: tiers
  cnt_mds :: mds_counters
  cnt_mon :: tiers
  cnt_pg :: tiers

record cluster =
  cl_id :: nat
  cl_name :: string
  cl_api_base_url :: string
  cl_space :: "space option"
  cl_health :: "health option"
  cl_pgs :: "pg_snapshot list option"
  cl_osds :: "osd_snapshot list option"
  cl_osds_by_pg_state :: "(string \<rightharpoonup> int list) option"
  cl_counters :: "counters option"
  cluster_update_time :: "int option"
  cluster_update_attempt_time :: "int option"
  cluster_update_error_isclient :: bool
  cluster_update_error_msg :: "string option"

text \<open>The tables, and the next primary key of each table that gets new rows.\<close>

record database =
  Server_objects :: "server list"
  ServiceStatus_objects :: "service_status list"
  Pool_objects :: "pool list"
  Cluster_objects :: "cluster list"
  next_server_id :: nat
  next_service_status_id :: nat
  next_pool_row :: nat

text \<open>
  \<^verbatim>\<open>Server.objects.get_or_create(cluster=..., addr=...)\<close>: the row that matches,
  or a new row (name and host name unset) when none does; \<^verbatim>\<open>get\<close> raises
  MultipleObjectsReturned when several rows match. The boolean is \<^verbatim>\<open>created\<close>.
\<close>

definition Server_get_or_create ::
  "database \<Rightarrow> nat \<Rightarrow> string \<Rightarrow> exn + (server \<times> bool) \<times> database" where
  "Server_get_or_create d cluster_id addr =
     (case filter (\<lambda>s. srv_cluster s = cluster_id \<and> srv_addr s = addr) (Server_objects d) of
        [] \<Rightarrow>
          (let s = \<lparr>srv_id = next_server_id d, srv_cluster = cluster_id, srv_addr = addr,
                    srv_name = None, srv_hostname = None\<rparr>
           in Inr ((s, True), d\<lparr>Server_objects := Server_objects d @ [s],
                                 next_server_id := Suc (next_server_id d)\<rparr>))
      | [s] \<Rightarrow> Inr ((s, False), d)
      | _ \<Rightarrow> Inl MultipleObjectsReturned)"

definition ServiceStatus_get_or_create ::
  "database \<Rightarrow> nat \<Rightarrow> service_type \<Rightarrow> int \<Rightarrow> exn + (service_status \<times> bool) \<times> database" where
  "ServiceStatus_get_or_create d server_id type service_id =
     (case filter (\<lambda>r. ss_server r = server_id \<and> ss_type r = type \<and> ss_service_id r = service_id)
             (ServiceStatus_objects d) of
        [] \<Rightarrow>
          (let r = \<lparr>ss_id = next_service_status_id d, ss_server = server_id, ss_type = type,
                    ss_service_id = service_id, ss_name = None\<rparr>
           in Inr ((r, True), d\<lparr>ServiceStatus_objects := ServiceStatus_objects d @ [r],
                                 next_service_status_id := Suc (next_service_status_id d)\<rparr>))
      | [r] \<Rightarrow> Inr ((r, False), d)
      | _ \<Rightarrow> Inl MultipleObjectsReturned)"

text \<open>\<^verbatim>\<open>save()\<close> of an object that has a primary key writes the row of that key.\<close>

definition Server_save :: "database \<Rightarrow> server \<Rightarrow> database" where
  "Server_save d s =
     d\<lparr>Server_objects := (if list_ex (\<lambda>r. srv_id r = srv_id s) (Server_objects d)
                    then map (\<lambda>r. if srv_id r = srv_id s then s else r) (Server_objects d)
                    else Server_objects d @ [s])\<rparr>"

definition ServiceStatus_save :: "database \<Rightarrow> service_status \<Rightarrow> database" where
  "ServiceStatus_save d x =
     d\<lparr>ServiceStatus_objects := (if list_ex (\<lambda>r. ss_id r = ss_id x) (ServiceStatus_objects d)
                             then map (\<lambda>r. if ss_id r = ss_id x then x else r) (ServiceStatus_objects d)
                             else ServiceStatus_objects d @ [x])\<rparr>"

definition Cluster_save :: "database \<Rightarrow> cluster \<Rightarrow> database" where
  "Cluster_save d x =
     d\<lparr>Cluster_objects := (if list_ex (\<lambda>r. cl_id r = cl_id x) (Cluster_objects d)
                     then map (\<lambda>r. if cl_id r = cl_id x then x else r) (Cluster_objects d)
                     else Cluster_objects d @ [x])\<rparr>"

text \<open>The lookup \<^verbatim>\<open>server__cluster=cluster\<close> on a ServiceStatus: the row's server
  is a server of the cluster.\<close>

definition server__cluster :: "database \<Rightarrow> nat \<Rightarrow> service_status \<Rightarrow> bool" where
  "server__cluster d cluster_id r =
     list_ex (\<lambda>s. srv_id s = ss_server r \<and> srv_cluster s = cluster_id) (Server_objects d)"

text \<open>\<^verbatim>\<open>ServiceStatus.objects.filter(...).delete()\<close> and
  \<^verbatim>\<open>Server.objects.filter(...).delete()\<close>, the latter with the rows that refer to
  the deleted servers.\<close>

definition ServiceStatus_delete :: "(service_status \<Rightarrow> bool) \<Rightarrow> database \<Rightarrow> database" where
  "ServiceStatus_delete P d = d\<lparr>ServiceStatus_objects := filter (\<lambda>r. \<not> P r) (ServiceStatus_objects d)\<rparr>"

definition Server_delete :: "(server \<Rightarrow> bool) \<Rightarrow> database \<Rightarrow> database" where
  "Server_delete P d =
     (let gone = map srv_id (filter P (Server_objects d))
      in d\<lparr>Server_objects := filter (\<lambda>s. \<not> P s) (Server_objects d),
            ServiceStatus_objects := filter (\<lambda>r. ss_server r \<notin> set gone) (ServiceStatus_objects d)\<rparr>)"

subsection \<open>The adapter\<close>

text \<open>
  What a pass changes: the store, the Cluster object \<^verbatim>\<open>self.cluster\<close> (in memory
  until \<^verbatim>\<open>save()\<close>), and the dictionary \<^verbatim>\<open>self._osd_name_to_server\<close>, which holds
  Server objects as they are in memory.
\<close>

record state =
  db :: database
  cluster :: cluster
  osd_name_to_server :: "string \<rightharpoonup> server"

subsubsection \<open>Registering a service\<close>

text \<open>
  The block under \<^verbatim>\<open>if server.hostname is None\<close>: it guesses the host name of the
  server and saves the server. Returns the Server object and the store.
\<close>

definition guess_hostname ::
  "env \<Rightarrow> client \<Rightarrow> database \<Rightarrow> server \<Rightarrow> string \<Rightarrow> service_type \<Rightarrow> string
     \<Rightarrow> exn \<times> database + server \<times> database" where
  "guess_hostname E c d server service_addr service_type name =
     (case service_type of
        OSD \<Rightarrow>
          (case crush_osd_hostnames E c of
             Inl e \<Rightarrow> Inl (e, d)
           | Inr hostnames \<Rightarrow>
               (let server = server\<lparr>srv_hostname := hostnames name\<rparr>
                in if srv_hostname server = None \<or> srv_hostname server = Some ''localhost''
                   then (let hostname = (case reverse_dns E service_addr of
                                           None \<Rightarrow> ''localhost''
                                         | Some h \<Rightarrow> h);
                             server = server\<lparr>srv_hostname := Some hostname\<rparr>;
                             server = server\<lparr>srv_name := srv_hostname server\<rparr>
                         in Inr (server, Server_save d server))
                   else (let server = server\<lparr>srv_name := srv_hostname server\<rparr>
                         in Inr (server, Server_save d server))))
      | MON \<Rightarrow>
          (case reverse_dns E service_addr of
             Some hostname \<Rightarrow>
               (let server = server\<lparr>srv_hostname := Some hostname\<rparr>;
                    server = server\<lparr>srv_name := srv_hostname server\<rparr>
                in Inr (server, Server_save d server))
           | None \<Rightarrow>
               (let server = server\<lparr>srv_name := Some name\<rparr>
                in Inr (server, Server_save d server))))"

text \<open>
  The block under \<^verbatim>\<open>if created\<close>: it names the new ServiceStatus, deletes the
  rows the filter selects (another server, this cluster, type \<^verbatim>\<open>ServiceStatus.OSD\<close>,
  the same \<^verbatim>\<open>service_id\<close>), guesses the host name and, in memory only, falls back to
  the address for the server's name.
\<close>

definition register_created ::
  "env \<Rightarrow> client \<Rightarrow> nat \<Rightarrow> database \<Rightarrow> server \<Rightarrow> service_status \<Rightarrow> string \<Rightarrow> service_type
     \<Rightarrow> int \<Rightarrow> string \<Rightarrow> exn \<times> database + (server \<times> service_status) \<times> database" where
  "register_created E c cluster_id d server service_status service_addr service_type
       service_id name =
     (let service_status = service_status\<lparr>ss_name := Some name\<rparr>;
          d = ServiceStatus_save d service_status;
          d = ServiceStatus_delete
                (\<lambda>r. ss_server r \<noteq> srv_id server \<and> server__cluster d cluster_id r
                      \<and> ss_type r = OSD \<and> ss_service_id r = service_id) d
      in case (if srv_hostname server = None
               then guess_hostname E c d server service_addr service_type name
               else Inr (server, d)) of
           Inl x \<Rightarrow> Inl x
         | Inr (server, d) \<Rightarrow>
             (let server = (if srv_name server = None
                            then server\<lparr>srv_name := Some service_addr\<rparr> else server)
              in Inr ((server, service_status), d)))"

definition register_service ::
  "env \<Rightarrow> client \<Rightarrow> state \<Rightarrow> string \<Rightarrow> service_type \<Rightarrow> int \<Rightarrow> string
     \<Rightarrow> exn \<times> state + service_status \<times> state" where
  "register_service E c st service_addr service_type service_id name =
     (case Server_get_or_create (db st) (cl_id (cluster st)) service_addr of
        Inl e \<Rightarrow> Inl (e, st)
      | Inr ((server, server_created), d) \<Rightarrow>
          (case ServiceStatus_get_or_create d (srv_id server) service_type service_id of
             Inl e \<Rightarrow> Inl (e, st\<lparr>db := d\<rparr>)
           | Inr ((service_status, created), d) \<Rightarrow>
               (case (if created
                      then register_created E c (cl_id (cluster st)) d server service_status
                             service_addr service_type service_id name
                      else Inr ((server, service_status), d)) of
                  Inl (e, d) \<Rightarrow> Inl (e, st\<lparr>db := d\<rparr>)
                | Inr ((server, service_status), d) \<Rightarrow>
                    Inr (service_status,
                         st\<lparr>db := d,
                            osd_name_to_server :=
                              (if service_type = OSD then (osd_name_to_server st)(name \<mapsto> server)
                               else osd_name_to_server st)\<rparr>))))"

subsubsection \<open>Reconciling the servers\<close>

text \<open>
  The two loops of \<^verbatim>\<open>_refresh_servers\<close>. They carry the state and the two sets
  \<^verbatim>\<open>old_service_status_ids\<close> and \<^verbatim>\<open>old_server_addrs\<close>, here lists;
  \<^verbatim>\<open>discard\<close> is \<open>removeAll\<close>.
\<close>

fun register_osds ::
  "env \<Rightarrow> client \<Rightarrow> osd_entry list \<Rightarrow> state \<times> nat list \<times> string list
     \<Rightarrow> exn \<times> state + state \<times> nat list \<times> string list" where
  "register_osds E c [] acc = Inr acc"
| "register_osds E c (osd # osds) (st, old_service_status_ids, old_server_addrs) =
     (let addr = short_addr (hd (split (osd_public_addr osd) '':''));
          osd_name = ''osd.'' @ str_int (osd_osd osd)
      in case register_service E c st addr OSD (osd_osd osd) osd_name of
           Inl x \<Rightarrow> Inl x
         | Inr (service_status, st) \<Rightarrow>
             register_osds E c osds
               (st, removeAll (ss_id service_status) old_service_status_ids,
                removeAll addr old_server_addrs))"

fun register_mons ::
  "env \<Rightarrow> client \<Rightarrow> mon list \<Rightarrow> state \<times> nat list \<times> string list
     \<Rightarrow> exn \<times> state + state \<times> nat list \<times> string list" where
  "register_mons E c [] acc = Inr acc"
| "register_mons E c (mon # mons) (st, old_service_status_ids, old_server_addrs) =
     (let addr = short_addr (hd (split (mon_addr mon) '':''))
      in case register_service E c st addr MON (mon_rank mon) (''mon.'' @ mon_name mon) of
           Inl x \<Rightarrow> Inl x
         | Inr (service_status, st) \<Rightarrow>
             register_mons E c mons
               (st, removeAll (ss_id service_status) old_service_status_ids,
                removeAll addr old_server_addrs))"

definition refresh_servers :: "env \<Rightarrow> client \<Rightarrow> state \<Rightarrow> exn \<times> state + state" where
  "refresh_servers E c st =
     (case get_mon_status c of
        Inl e \<Rightarrow> Inl (e, st)
      | Inr mons \<Rightarrow>
          (case get_osds c of
             Inl e \<Rightarrow> Inl (e, st)
           | Inr osd_map \<Rightarrow>
               (let old_service_status_ids =
                      map ss_id (filter (server__cluster (db st) (cl_id (cluster st)))
                                   (ServiceStatus_objects (db st)));
                    old_server_addrs =
                      map srv_addr (filter (\<lambda>s. srv_cluster s = cl_id (cluster st))
                                      (Server_objects (db st)))
                in case register_osds E c (od_osds osd_map)
                          (st, old_service_status_ids, old_server_addrs) of
                     Inl x \<Rightarrow> Inl x
                   | Inr acc \<Rightarrow>
                       (case register_mons E c mons acc of
                          Inl x \<Rightarrow> Inl x
                        | Inr (st, old_service_status_ids, old_server_addrs) \<Rightarrow>
                            Inr (st\<lparr>db :=
                                   Server_delete (\<lambda>s. srv_addr s \<in> set old_server_addrs)
                                     (ServiceStatus_delete
                                        (\<lambda>r. ss_id r \<in> set old_service_status_ids) (db st))\<rparr>)))))"

subsubsection \<open>The populate methods\<close>

definition populate_space :: "env \<Rightarrow> client \<Rightarrow> state \<Rightarrow> exn \<times> state + state" where
  "populate_space E c st =
     (case get_space_stats c of
        Inl e \<Rightarrow> Inl (e, st)
      | Inr df \<Rightarrow>
          (let data = df_stats_of df
           in Inr (st\<lparr>cluster := (cluster st)\<lparr>cl_space :=
                      Some \<lparr>used_bytes = df_total_used data * 1024,
                            capacity_bytes = df_total_space data * 1024,
                            free_bytes = df_total_avail data * 1024\<rparr>\<rparr>\<rparr>)))"

definition populate_health :: "env \<Rightarrow> client \<Rightarrow> state \<Rightarrow> exn \<times> state + state" where
  "populate_health E c st =
     (case get_health c of
        Inl e \<Rightarrow> Inl (e, st)
      | Inr data \<Rightarrow>
          Inr (st\<lparr>cluster := (cluster st)\<lparr>cl_health :=
                  Some \<lparr>overall_status = hd_overall_status data,
                        detail = hd_detail data,
                        summary = hd_summary data\<rparr>\<rparr>\<rparr>))"

text \<open>
  The body of the loop of \<^verbatim>\<open>_populate_pools\<close> over the pools of the OSD map:
  \<^verbatim>\<open>stats\<close> is the statistics of the last entry of \<^verbatim>\<open>df_pools\<close> with the pool's
  id; \<^verbatim>\<open>update\<close> writes every matching row and returns how many there are.
\<close>

definition populate_pool :: "nat \<Rightarrow> df_pool list \<Rightarrow> database \<Rightarrow> osd_map_pool \<Rightarrow> database" where
  "populate_pool cluster_id df_pools d pool =
     (let pool_id = omp_pool pool;
          stats = foldl (\<lambda>stats pool_stats.
                           if dfp_id pool_stats = pool_id then Some (dfp_stats pool_stats)
                           else stats) None df_pools
      in case stats of
           None \<Rightarrow> d
         | Some stats \<Rightarrow>
             (let matches = (\<lambda>r. pool_cluster_id r = cluster_id \<and> pool_pool_id r = pool_id);
                  attrs = (\<lambda>r. r\<lparr>pool_name := omp_pool_name pool,
                                 pool_quota_max_bytes := omp_quota_max_bytes pool,
                                 pool_quota_max_objects := omp_quota_max_bytes pool,
                                 pool_used_bytes := dps_bytes_used stats,
                                 pool_used_objects := dps_objects stats\<rparr>);
                  updated = length (filter matches (Pool_objects d))
              in if updated = 0
                 then d\<lparr>Pool_objects := Pool_objects d @
                          [attrs \<lparr>pool_row = next_pool_row d, pool_cluster_id = cluster_id,
                                  pool_pool_id = pool_id, pool_name = [],
                                  pool_quota_max_bytes = 0, pool_quota_max_objects = 0,
                                  pool_used_bytes = 0, pool_used_objects = 0\<rparr>],
                        next_pool_row := Suc (next_pool_row d)\<rparr>
                 else d\<lparr>Pool_objects := map (\<lambda>r. if matches r then attrs r else r) (Pool_objects d)\<rparr>))"

definition populate_pools :: "env \<Rightarrow> client \<Rightarrow> state \<Rightarrow> exn \<times> state + state" where
  "populate_pools E c st =
     (case get_osds c of
        Inl e \<Rightarrow> Inl (e, st)
      | Inr osd_map \<Rightarrow>
          (case get_space_stats c of
             Inl e \<Rightarrow> Inl (e, st)
           | Inr df \<Rightarrow>
               (let osd_map_pools = od_pools osd_map;
                    df_pools = df_pools_of df;
                    cluster_id = cl_id (cluster st);
                    d = (db st)\<lparr>Pool_objects :=
                          filter (\<lambda>r. \<not> (pool_pool_id r \<notin> set (map omp_pool osd_map_pools)
                                          \<and> pool_cluster_id r = cluster_id))
                            (Pool_objects (db st))\<rparr>
                in Inr (st\<lparr>db := foldl (populate_pool cluster_id df_pools) d osd_map_pools\<rparr>))))"

text \<open>The four indexes \<^verbatim>\<open>_populate_osds_and_pgs\<close> builds. A default dictionary
  whose keys are never listed is a function with the default as its initial value.\<close>

record indexes =
  pg_states_by_osd :: "int \<Rightarrow> (string \<rightharpoonup> int)"
  pg_counts_by_osd :: "int \<Rightarrow> int"
  pools_by_osd :: "int \<Rightarrow> string list"
  osds_by_pg_state :: "string \<rightharpoonup> int list"

text \<open>\<^verbatim>\<open>a |= b\<close> on sets held as lists.\<close>

definition set_union :: "'a list \<Rightarrow> 'a list \<Rightarrow> 'a list" where
  "set_union a b = foldl (\<lambda>acc x. if x \<in> set acc then acc else acc @ [x]) a b"

definition fixup_pg :: "pg_entry \<Rightarrow> pg_snapshot" where
  "fixup_pg pg = \<lparr>pgs_pgid = pge_pgid pg, pgs_acting = pge_acting pg, pgs_up = pge_up pg,
                  pgs_state = split (pge_state pg) ''+''\<rparr>"

text \<open>The body of the loop "populate the indexes"; \<^verbatim>\<open>int(...)\<close> may raise.\<close>

definition index_pg :: "(int \<rightharpoonup> string) \<Rightarrow> indexes \<Rightarrow> pg_snapshot \<Rightarrow> exn + indexes" where
  "index_pg pools_by_id idx pg =
     (case py_int (hd (split (pgs_pgid pg) ''.'')) of
        Inl e \<Rightarrow> Inl e
      | Inr pool_id \<Rightarrow>
          (let acting = remdups (pgs_acting pg);
               idx = idx\<lparr>pg_counts_by_osd :=
                       foldl (\<lambda>m osd_id. m(osd_id := m osd_id + 1)) (pg_counts_by_osd idx) acting\<rparr>
           in Inr (foldl (\<lambda>idx state.
                     (let idx = idx\<lparr>osds_by_pg_state := (osds_by_pg_state idx)(state \<mapsto>
                                  set_union (case osds_by_pg_state idx state of
                                               None \<Rightarrow> [] | Some osds \<Rightarrow> osds) acting)\<rparr>
                      in foldl (\<lambda>idx osd_id.
                           (let idx = idx\<lparr>pg_states_by_osd := (pg_states_by_osd idx)(osd_id :=
                                        dadd (pg_states_by_osd idx osd_id) state 1)\<rparr>
                            in case pools_by_id pool_id of
                                 Some poolname \<Rightarrow>
                                   idx\<lparr>pools_by_osd := (pools_by_osd idx)(osd_id :=
                                         set_union (pools_by_osd idx osd_id) [poolname])\<rparr>
                               | None \<Rightarrow> idx)) idx acting)) idx (pgs_state pg))))"

fun index_pgs :: "(int \<rightharpoonup> string) \<Rightarrow> indexes \<Rightarrow> pg_snapshot list \<Rightarrow> exn + indexes" where
  "index_pgs pools_by_id idx [] = Inr idx"
| "index_pgs pools_by_id idx (pg # pgs) =
     (case index_pg pools_by_id idx pg of
        Inl e \<Rightarrow> Inl e
      | Inr idx \<Rightarrow> index_pgs pools_by_id idx pgs)"

text \<open>\<^verbatim>\<open>fixup_osd\<close>: the lookup in \<^verbatim>\<open>_osd_name_to_server\<close> raises KeyError for a
  name that is not there; a host name that is None or empty is false.\<close>

definition fixup_osd :: "(string \<rightharpoonup> server) \<Rightarrow> indexes \<Rightarrow> osd_entry \<Rightarrow> exn + osd_snapshot" where
  "fixup_osd name_to_server idx osd =
     (let osd_id = osd_osd osd
      in case name_to_server (''osd.'' @ str_int osd_id) of
           None \<Rightarrow> Inl KeyError
         | Some server \<Rightarrow>
             (let host = (case srv_hostname server of
                            None \<Rightarrow> srv_addr server
                          | Some h \<Rightarrow> if h \<noteq> [] then h else srv_addr server)
              in Inr \<lparr>os_uuid = osd_uuid osd, os_up = osd_up osd, os_in = osd_in osd,
                      os_up_from = osd_up_from osd, os_public_addr = osd_public_addr osd,
                      os_cluster_addr = osd_cluster_addr osd,
                      os_heartbeat_back_addr = osd_heartbeat_back_addr osd,
                      os_heartbeat_front_addr = osd_heartbeat_front_addr osd,
                      os_id = osd_id,
                      os_pg_states = pg_states_by_osd idx osd_id,
                      os_pg_count = pg_counts_by_osd idx osd_id,
                      os_pools = pools_by_osd idx osd_id,
                      os_host = host\<rparr>))"

text \<open>\<^verbatim>\<open>map(fixup_osd, osds)\<close>: the first exception ends the map.\<close>

fun map_fixup_osd ::
  "(string \<rightharpoonup> server) \<Rightarrow> indexes \<Rightarrow> osd_entry list \<Rightarrow> exn + osd_snapshot list" where
  "map_fixup_osd name_to_server idx [] = Inr []"
| "map_fixup_osd name_to_server idx (osd # osds) =
     (case fixup_osd name_to_server idx osd of
        Inl e \<Rightarrow> Inl e
      | Inr x \<Rightarrow> (case map_fixup_osd name_to_server idx osds of
                    Inl e \<Rightarrow> Inl e
                  | Inr xs \<Rightarrow> Inr (x # xs)))"

definition populate_osds_and_pgs :: "env \<Rightarrow> client \<Rightarrow> state \<Rightarrow> exn \<times> state + state" where
  "populate_osds_and_pgs E c st =
     (case get_pg_stats c of
        Inl e \<Rightarrow> Inl (e, st)
      | Inr pgs \<Rightarrow>
          (let st = st\<lparr>cluster := (cluster st)\<lparr>cl_pgs := Some (map fixup_pg pgs)\<rparr>\<rparr>
           in case get_pools c of
                Inl e \<Rightarrow> Inl (e, st)
              | Inr pools \<Rightarrow>
                  (let pools_by_id = map_of (rev (map (\<lambda>d. (lsp_poolnum d, lsp_poolname d)) pools))
                   in case index_pgs pools_by_id
                             \<lparr>pg_states_by_osd = (\<lambda>_. Map.empty), pg_counts_by_osd = (\<lambda>_. 0),
                              pools_by_osd = (\<lambda>_. []), osds_by_pg_state = Map.empty\<rparr>
                             (map fixup_pg pgs) of
                        Inl e \<Rightarrow> Inl (e, st)
                      | Inr idx \<Rightarrow>
                          (let st = st\<lparr>cluster := (cluster st)\<lparr>cl_osds_by_pg_state :=
                                         Some (osds_by_pg_state idx)\<rparr>\<rparr>
                           in case get_osds c of
                                Inl e \<Rightarrow> Inl (e, st)
                              | Inr osd_map \<Rightarrow>
                                  (case map_fixup_osd (osd_name_to_server st) idx
                                          (od_osds osd_map) of
                                     Inl e \<Rightarrow> Inl (e, st)
                                   | Inr osds \<Rightarrow>
                                       Inr (st\<lparr>cluster :=
                                              (cluster st)\<lparr>cl_osds := Some osds\<rparr>\<rparr>))))))"

text \<open>The dictionary display of \<^verbatim>\<open>_populate_counters\<close> evaluates its values in
  the order written.\<close>

definition populate_counters :: "env \<Rightarrow> client \<Rightarrow> state \<Rightarrow> exn \<times> state + state" where
  "populate_counters E c st =
     (case calculate_pool_counters c of
        Inl e \<Rightarrow> Inl (e, st)
      | Inr pool \<Rightarrow>
     (case calculate_osd_counters c of
        Inl e \<Rightarrow> Inl (e, st)
      | Inr osd \<Rightarrow>
     (case calculate_mds_counters c of
        Inl e \<Rightarrow> Inl (e, st)
      | Inr mds \<Rightarrow>
     (case calculate_mon_counters E c of
        Inl e \<Rightarrow> Inl (e, st)
      | Inr mon \<Rightarrow>
     (case calculate_pg_counters c of
        Inl e \<Rightarrow> Inl (e, st)
      | Inr pg \<Rightarrow>
          Inr (st\<lparr>cluster := (cluster st)\<lparr>cl_counters :=
                  Some \<lparr>cnt_pool = pool, cnt_osd = osd, cnt_mds = mds, cnt_mon = mon,
                        cnt_pg = pg\<rparr>\<rparr>\<rparr>))))))"

subsubsection \<open>One pass\<close>

text \<open>
  The names \<^verbatim>\<open>dir(self)\<close> lists for a \<^verbatim>\<open>ModelAdapter\<close>: the attributes of
  the class and of the instance, as the source declares them, in alphabetical order
  (\<^verbatim>\<open>dir\<close> sorts its answer). The names inherited from \<^verbatim>\<open>object\<close> begin and end
  with two underscores and do not pass the filter of \<^verbatim>\<open>refresh\<close>.
\<close>

definition ModelAdapter_names :: "string list" where
  "ModelAdapter_names =
     [''CRIT_STATES'', ''WARN_STATES'', ''OKAY_STATES'', ''OSD_FIELDS'', ''PG_FIELDS'',
      ''__init__'', ''client'', ''cluster'', ''mon_timeout'', ''_crush_osd_hostnames'',
      ''_osd_name_to_server'', ''refresh'', ''_populate_space'', ''_populate_health'',
      ''_populate_pools'', ''_populate_osds_and_pgs'', ''_populate_counters'',
      ''crush_osd_hostnames'', ''_reverse_dns'', ''_short_addr'', ''_register_service'',
      ''_refresh_servers'', ''_calculate_pool_counters'', ''_calculate_osd_counters'',
      ''_calculate_mds_counters'', ''_IPV4_RE'', ''_IPV6_RE'', ''try_mon_connect'',
      ''_calculate_mon_counters'', ''_pg_counter_helper'', ''_calculate_pg_counters'']"

definition dir_ModelAdapter :: "string list" where
  "dir_ModelAdapter = sort ModelAdapter_names"

text \<open>\<^verbatim>\<open>getattr(self, attr)\<close> for the methods \<^verbatim>\<open>refresh\<close> calls by name.\<close>

definition getattr :: "string \<Rightarrow> (env \<Rightarrow> client \<Rightarrow> state \<Rightarrow> exn \<times> state + state) option" where
  "getattr attr =
     map_of [(''_populate_space'', populate_space),
             (''_populate_health'', populate_health),
             (''_populate_pools'', populate_pools),
             (''_populate_osds_and_pgs'', populate_osds_and_pgs),
             (''_populate_counters'', populate_counters)] attr"

text \<open>\<^verbatim>\<open>for attr in attrs: getattr(self, attr)()\<close>\<close>

fun call_each :: "env \<Rightarrow> client \<Rightarrow> string list \<Rightarrow> state \<Rightarrow> exn \<times> state + state" where
  "call_each E c [] st = Inr st"
| "call_each E c (attr # attrs) st =
     (case getattr attr of
        None \<Rightarrow> Inl (AttributeError, st)
      | Some method \<Rightarrow>
          (case method E c st of
             Inl x \<Rightarrow> Inl x
           | Inr st \<Rightarrow> call_each E c attrs st))"

definition refresh :: "env \<Rightarrow> client \<Rightarrow> state \<Rightarrow> exn \<times> state + state" where
  "refresh E c st =
     (case refresh_servers E c st of
        Inl x \<Rightarrow> Inl x
      | Inr st \<Rightarrow>
          (let attrs = filter (\<lambda>a. startswith a ''_populate_'') dir_ModelAdapter
           in case call_each E c attrs st of
                Inl x \<Rightarrow> Inl x
              | Inr st \<Rightarrow> Inr (st\<lparr>db := Cluster_save (db st) (cluster st)\<rparr>)))"

subsection \<open>The command\<close>





subsection \<open>The pipeline in the order of the specification\<close>

text \<open>
  The specification numbers the steps of a pass: 1 registry reconciliation, 2 space,
  3 health, 4 pools, 5 OSDs and PGs, 6 counters, 7 persist. \<open>in_order\<close> runs a list of
  steps one after the other and stops at the first that raises; \<open>spec_refresh\<close> is the
  pass with the steps in the order of the specification, to be compared with \<open>refresh\<close>.
\<close>

definition in_order ::
  "(env \<Rightarrow> client \<Rightarrow> state \<Rightarrow> exn \<times> state + state) list \<Rightarrow> env \<Rightarrow> client \<Rightarrow> state
     \<Rightarrow> exn \<times> state + state" where
  "in_order steps E c st =
     foldl (\<lambda>r step. case r of Inl x \<Rightarrow> Inl x | Inr st \<Rightarrow> step E c st) (Inr st) steps"

text \<open>\<^verbatim>\<open>self.cluster.save()\<close>\<close>

definition save_cluster :: "env \<Rightarrow> client \<Rightarrow> state \<Rightarrow> exn \<times> state + state" where
  "save_cluster E c st = Inr (st\<lparr>db := Cluster_save (db st) (cluster st)\<rparr>)"

definition spec_refresh :: "env \<Rightarrow> client \<Rightarrow> state \<Rightarrow> exn \<times> state + state" where
  "spec_refresh =
     in_order [refresh_servers, populate_space, populate_health, populate_pools,
               populate_osds_and_pgs, populate_counters, save_cluster]"

text \<open>
  The five populate methods, each run on its own on the state \<open>s\<close> that reconciliation
  leaves, with their results put together in \<open>s'\<close>: the form both orders of the pipeline
  are compared with.
\<close>

definition alone :: "env \<Rightarrow> client \<Rightarrow> state \<Rightarrow> state \<Rightarrow> bool" where
  "alone E c s s' =
     (\<exists>a b d e f. populate_counters E c s = Inr a \<and> populate_health E c s = Inr b
        \<and> populate_osds_and_pgs E c s = Inr d \<and> populate_pools E c s = Inr e
        \<and> populate_space E c s = Inr f
        \<and> s' = s\<lparr>db := db e,
                  cluster := (cluster s)\<lparr>cl_counters := cl_counters (cluster a),
                    cl_health := cl_health (cluster b),
                    cl_pgs := cl_pgs (cluster d),
                    cl_osds_by_pg_state := cl_osds_by_pg_state (cluster d),
                    cl_osds := cl_osds (cluster d),
                    cl_space := cl_space (cluster f)\<rparr>\<rparr>)"

subsection \<open>Words of the specification\<close>



text \<open>
  "Add the PG's count to the bucket and to each matching label's sub-count": the bucket
  after \<open>n\<close> PGs with the labels \<open>labels\<close> have been counted under \<open>classifier\<close>.
\<close>

definition bucket_add :: "string list \<Rightarrow> string list \<Rightarrow> int \<Rightarrow> pg_stats \<Rightarrow> pg_stats" where
  "bucket_add classifier labels n stats =
     (fst stats + n,
      (\<lambda>l. if l \<in> set classifier \<inter> set labels then Some (dget (snd stats) l + n)
           else snd stats l))"

text \<open>
  The classification of the specification, for a whole list of \<^verbatim>\<open>pgs_by_state\<close>
  entries. \<open>labels_of\<close> is the list of labels of an entry; an entry is critical when it
  has a critical label, warn when it has no critical label and has a warn label, ok when
  it has neither and has an ok label. \<open>bucket classifier es\<close> is the bucket made of the
  entries \<open>es\<close>: its count is the sum of their counts, and a label of the classifier that
  occurs in one of them has the sum of the counts of the entries it occurs in.
\<close>

definition labels_of :: "pg_state_entry \<Rightarrow> string list" where
  "labels_of e = map lower (split (pse_state_name e) ''+'')"

definition has_label :: "string list \<Rightarrow> pg_state_entry \<Rightarrow> bool" where
  "has_label classifier e = (set classifier \<inter> set (labels_of e) \<noteq> {})"

definition critical_entries :: "pg_state_entry list \<Rightarrow> pg_state_entry list" where
  "critical_entries es = filter (has_label CRIT_STATES) es"

definition warn_entries :: "pg_state_entry list \<Rightarrow> pg_state_entry list" where
  "warn_entries es =
     filter (\<lambda>e. \<not> has_label CRIT_STATES e \<and> has_label WARN_STATES e) es"

definition ok_entries :: "pg_state_entry list \<Rightarrow> pg_state_entry list" where
  "ok_entries es =
     filter (\<lambda>e. \<not> has_label CRIT_STATES e \<and> \<not> has_label WARN_STATES e
                  \<and> has_label OKAY_STATES e) es"

definition bucket :: "string list \<Rightarrow> pg_state_entry list \<Rightarrow> severity" where
  "bucket classifier es =
     \<lparr>sev_count = sum_list (map pse_count es),
      sev_states = (\<lambda>l. if l \<in> set classifier \<and> list_ex (\<lambda>e. l \<in> set (labels_of e)) es
                         then Some (sum_list (map pse_count
                                      (filter (\<lambda>e. l \<in> set (labels_of e)) es)))
                         else None)\<rparr>"

text \<open>The accumulator \<open>stats\<close> of the loop after the entries \<open>es\<close> have been added to it
  under \<open>classifier\<close>.\<close>

definition absorb :: "string list \<Rightarrow> pg_state_entry list \<Rightarrow> pg_stats \<Rightarrow> pg_stats" where
  "absorb classifier es stats =
     (fst stats + sum_list (map pse_count es),
      (\<lambda>l. if l \<in> set classifier \<and> list_ex (\<lambda>e. l \<in> set (labels_of e)) es
           then Some (dget (snd stats) l
                      + sum_list (map pse_count (filter (\<lambda>e. l \<in> set (labels_of e)) es)))
           else snd stats l))"


subsection \<open>Concrete inputs\<close>

text \<open>A cluster whose REST API answers every request, with no OSD, monitor, pool or PG.\<close>

definition quiet_client :: client where
  "quiet_client =
     \<lparr>get_status = Inr \<lparr>st_mdsmap = \<lparr>mds_max = 1, mds_up = 1, mds_in = 1\<rparr>, st_mons = [],
                         st_quorum = [], st_pgs_by_state = []\<rparr>,
      get_space_stats = Inr \<lparr>df_stats_of = \<lparr>df_total_used = 1, df_total_space = 4,
                                              df_total_avail = 3\<rparr>,
                              df_pools_of = []\<rparr>,
      get_health = Inr \<lparr>hd_overall_status = JStr ''HEALTH_OK'', hd_detail = JList [],
                         hd_summary = JList []\<rparr>,
      get_osds = Inr \<lparr>od_osds = [], od_pools = []\<rparr>,
      get_mon_status = Inr [],
      get_pg_pools = Inr [],
      get_pools = Inr [],
      get_pg_stats = Inr [],
      get_osd_tree = Inr []\<rparr>"

text \<open>A host without name service and without reachable monitors, in front of the REST
  API \<open>c\<close>; the CRUSH types are Ceph's usual ones.\<close>

definition example_env :: "client \<Rightarrow> env" where
  "example_env c =
     \<lparr>gethostbyaddr = (\<lambda>_. None),
      create_connection = (\<lambda>_ _. Inl SocketError),
      recursion_limit = 1000,
      CRUSH_OSD_TYPE = ''osd'',
      CRUSH_HOST_TYPE = ''host'',
      format_exc = (\<lambda>_. ''Traceback (most recent call last): ...''),
      rest_api = (\<lambda>_. c)\<rparr>"

definition osd_at :: "int \<Rightarrow> string \<Rightarrow> int \<Rightarrow> int \<Rightarrow> osd_entry" where
  "osd_at n addr up inn =
     \<lparr>osd_osd = n, osd_uuid = ''uuid'', osd_up = up, osd_in = inn, osd_up_from = 1,
      osd_public_addr = addr, osd_cluster_addr = addr,
      osd_heartbeat_back_addr = addr, osd_heartbeat_front_addr = addr\<rparr>"

definition mon_at :: "int \<Rightarrow> string \<Rightarrow> string \<Rightarrow> mon" where
  "mon_at rank name addr = \<lparr>mon_rank = rank, mon_name = name, mon_addr = addr\<rparr>"

text \<open>A REST API that reports the given OSDs and monitors, and a CRUSH tree with one
  root and one host, \<open>node1\<close>, that holds all the OSDs.\<close>

definition cluster_with :: "osd_entry list \<Rightarrow> mon list \<Rightarrow> client" where
  "cluster_with osds mons =
     quiet_client\<lparr>get_osds := Inr \<lparr>od_osds = osds, od_pools = []\<rparr>,
       get_mon_status := Inr mons,
       get_osd_tree := Inr (
         [\<lparr>cn_id = - 1, cn_name = ''default'', cn_type = ''root'', cn_children = [- 2]\<rparr>,
          \<lparr>cn_id = - 2, cn_name = ''node1'', cn_type = ''host'',
                cn_children = map osd_osd osds\<rparr>]
         @ map (\<lambda>osd. \<lparr>cn_id = osd_osd osd, cn_name = ''osd.'' @ str_int (osd_osd osd),
                          cn_type = ''osd'', cn_children = []\<rparr>) osds)\<rparr>"

text \<open>A REST API that reports one pool, with a quota of 1000 bytes and 5 objects.\<close>

definition quota_client :: client where
  "quota_client =
     quiet_client\<lparr>
       get_osds := Inr \<lparr>od_osds = [],
                        od_pools = [\<lparr>omp_pool = 0, omp_pool_name = ''data'',
                                     omp_quota_max_bytes = 1000,
                                     omp_quota_max_objects = 5\<rparr>]\<rparr>,
       get_space_stats := Inr \<lparr>df_stats_of = \<lparr>df_total_used = 1, df_total_space = 4,
                                                 df_total_avail = 3\<rparr>,
                               df_pools_of = [\<lparr>dfp_id = 0,
                                               dfp_stats = \<lparr>dps_bytes_used = 10,
                                                             dps_objects = 2\<rparr>\<rparr>]\<rparr>\<rparr>"

text \<open>A REST API whose status reports four groups of PGs.\<close>

definition pg_status_client :: client where
  "pg_status_client =
     quiet_client\<lparr>get_status :=
       Inr \<lparr>st_mdsmap = \<lparr>mds_max = 1, mds_up = 1, mds_in = 1\<rparr>, st_mons = [],
            st_quorum = [],
            st_pgs_by_state =
              [\<lparr>pse_state_name = ''active+clean'', pse_count = 1\<rparr>,
               \<lparr>pse_state_name = ''Active+Degraded'', pse_count = 4\<rparr>,
               \<lparr>pse_state_name = ''down+peering'', pse_count = 2\<rparr>,
               \<lparr>pse_state_name = ''stale+active+clean+down'', pse_count = 1\<rparr>]\<rparr>\<rparr>"

text \<open>The same quiet cluster when the request for the health times out.\<close>

definition health_down_client :: client where
  "health_down_client = quiet_client\<lparr>get_health := Inl RequestException\<rparr>"

definition example_cluster :: cluster where
  "example_cluster =
     \<lparr>cl_id = 1, cl_name = ''ceph'', cl_api_base_url = ''http://localhost:5000/api/v0.1/'',
      cl_space = None, cl_health = None, cl_pgs = None, cl_osds = None,
      cl_osds_by_pg_state = None, cl_counters = None,
      cluster_update_time = None, cluster_update_attempt_time = None,
      cluster_update_error_isclient = False, cluster_update_error_msg = None\<rparr>"

text \<open>A store that knows the cluster and nothing else; Django numbers rows from 1.\<close>

definition example_db :: database where
  "example_db =
     \<lparr>Server_objects = [], ServiceStatus_objects = [], Pool_objects = [],
      Cluster_objects = [example_cluster],
      next_server_id = 1, next_service_status_id = 1, next_pool_row = 1\<rparr>"

definition example_state :: state where
  "example_state = \<lparr>db = example_db, cluster = example_cluster, osd_name_to_server = Map.empty\<rparr>"

text \<open>The state a new adapter starts from when the store is that of \<open>st\<close>.\<close>

definition next_pass :: "state \<Rightarrow> state" where
  "next_pass st = \<lparr>db = db st, cluster = cluster st, osd_name_to_server = Map.empty\<rparr>"

text \<open>What a test looks at: the rows of the two tables of the registry.\<close>

definition registry :: "state \<Rightarrow> (nat \<times> string) list \<times> (nat \<times> nat \<times> service_type \<times> int) list" where
  "registry st =
     (map (\<lambda>s. (srv_id s, srv_addr s)) (Server_objects (db st)),
      map (\<lambda>r. (ss_id r, ss_server r, ss_type r, ss_service_id r))
        (ServiceStatus_objects (db st)))"

definition registry_of ::
  "exn \<times> state + state \<Rightarrow> exn + (nat \<times> string) list \<times> (nat \<times> nat \<times> service_type \<times> int) list" where
  "registry_of r = (case r of Inl (e, st) \<Rightarrow> Inl e | Inr st \<Rightarrow> Inr (registry st))"

text \<open>One more pass of \<^verbatim>\<open>_refresh_servers\<close>, by a new adapter, against the REST
  API \<open>c\<close>; and one call of \<^verbatim>\<open>_register_service\<close> by a new adapter.\<close>

definition pass :: "client \<Rightarrow> exn \<times> state + state \<Rightarrow> exn \<times> state + state" where
  "pass c r =
     (case r of
        Inl x \<Rightarrow> Inl x
      | Inr st \<Rightarrow> refresh_servers (example_env c) c (next_pass st))"

definition register_step ::
  "client \<Rightarrow> string \<Rightarrow> service_type \<Rightarrow> int \<Rightarrow> string \<Rightarrow> exn \<times> state + state
     \<Rightarrow> exn \<times> state + state" where
  "register_step c service_addr service_type service_id name r =
     (case r of
        Inl x \<Rightarrow> Inl x
      | Inr st \<Rightarrow>
          (case register_service (example_env c) c (next_pass st) service_addr service_type
                  service_id name of
             Inl x \<Rightarrow> Inl x
           | Inr (service_status, st) \<Rightarrow> Inr st))"

text \<open>The monitors of rank 0 to 4, each on a host of its own.\<close>

definition five_mons :: "mon list" where
  "five_mons = [mon_at 0 ''a'' ''10.0.1.1:6789/0'', mon_at 1 ''b'' ''10.0.1.2:6789/0'',
                mon_at 2 ''c'' ''10.0.1.3:6789/0'', mon_at 3 ''d'' ''10.0.1.4:6789/0'',
                mon_at 4 ''e'' ''10.0.1.5:6789/0'']"

section \<open>Properties\<close>

subsection \<open>The PG classifier\<close>

lemma add_matched_apply:
  "distinct ms \<Longrightarrow>
   add_matched d n ms l = (if l \<in> set ms then Some (dget d l + n) else d l)"
proof (induction ms arbitrary: d)
  case Nil
  then show ?case by simp
next
  case (Cons m ms)
  then show ?case by (auto simp: dadd_def dget_def)
qed

lemma distinct_intersection: "distinct cl \<Longrightarrow> distinct (intersection cl states)"
  by (simp add: intersection_def)

lemma set_intersection: "set (intersection cl states) = set cl \<inter> set states"
  by (auto simp: intersection_def)

text \<open>The helper, for a classifier without repeated labels: the loop over the matched
  labels amounts to one addition per label of the intersection.\<close>

lemma pg_counter_helper_eq:
  assumes "distinct cl"
  shows "pg_counter_helper states cl n stats =
     (if set cl \<inter> set states \<noteq> {}
      then (True, bucket_add cl states n stats)
      else (False, stats))"
proof -
  have len: "(length (intersection cl states) > 0) = (set cl \<inter> set states \<noteq> {})"
    using set_intersection [of cl states] by (metis length_greater_0_conv set_empty)
  have "add_matched (snd stats) n (intersection cl states) =
        (\<lambda>l. if l \<in> set cl \<inter> set states then Some (dget (snd stats) l + n) else snd stats l)"
    using add_matched_apply [OF distinct_intersection [OF assms]]
    by (simp add: fun_eq_iff set_intersection)
  then show ?thesis
    unfolding pg_counter_helper_def Let_def len bucket_add_def by simp
qed

lemma distinct_CRIT_STATES: "distinct CRIT_STATES"
  by (simp add: CRIT_STATES_def)

lemma distinct_WARN_STATES: "distinct WARN_STATES"
  by (simp add: WARN_STATES_def)

lemma distinct_OKAY_STATES: "distinct OKAY_STATES"
  by (simp add: OKAY_STATES_def)

text \<open>
  One iteration of the loop of \<^verbatim>\<open>_calculate_pg_counters\<close>: the critical set is
  tried first, then the warn set, then the ok set, and only the bucket of the first set
  that matches changes.
\<close>

lemma pg_counters_step_cases:
  "pg_counters_step (ok, warn, crit) e =
     (if has_label CRIT_STATES e
      then (ok, warn, bucket_add CRIT_STATES (labels_of e) (pse_count e) crit)
      else if has_label WARN_STATES e
      then (ok, bucket_add WARN_STATES (labels_of e) (pse_count e) warn, crit)
      else if has_label OKAY_STATES e
      then (bucket_add OKAY_STATES (labels_of e) (pse_count e) ok, warn, crit)
      else (ok, warn, crit))"
  unfolding pg_counters_step_def Let_def has_label_def labels_of_def
  by (simp add: pg_counter_helper_eq [OF distinct_CRIT_STATES]
        pg_counter_helper_eq [OF distinct_WARN_STATES]
        pg_counter_helper_eq [OF distinct_OKAY_STATES])

lemma absorb_Nil: "absorb classifier [] stats = stats"
  by (simp add: absorb_def)

lemma filter_none: "\<not> list_ex P es \<Longrightarrow> filter P es = []"
  by (induction es) auto

lemma absorb_Cons:
  "absorb classifier (e # es) stats =
     absorb classifier es (bucket_add classifier (labels_of e) (pse_count e) stats)"
proof -
  have "snd (absorb classifier (e # es) stats) l =
        snd (absorb classifier es (bucket_add classifier (labels_of e) (pse_count e) stats)) l"
    for l
    by (cases "list_ex (\<lambda>e. l \<in> set (labels_of e)) es")
       (simp_all add: absorb_def bucket_add_def dget_def filter_none)
  then have 2: "snd (absorb classifier (e # es) stats) =
        snd (absorb classifier es (bucket_add classifier (labels_of e) (pse_count e) stats))"
    by (rule ext)
  have 1: "fst (absorb classifier (e # es) stats) =
        fst (absorb classifier es (bucket_add classifier (labels_of e) (pse_count e) stats))"
    by (simp add: absorb_def bucket_add_def)
  show ?thesis
    by (rule prod_eqI [OF 1 2])
qed

lemma foldl_pg_counters_step:
  "foldl pg_counters_step (ok, warn, crit) es =
     (absorb OKAY_STATES (ok_entries es) ok,
      absorb WARN_STATES (warn_entries es) warn,
      absorb CRIT_STATES (critical_entries es) crit)"
proof (induction es arbitrary: ok warn crit)
  case Nil
  then show ?case
    by (simp add: absorb_Nil ok_entries_def warn_entries_def critical_entries_def)
next
  case (Cons e es)
  show ?case
  proof (cases "has_label CRIT_STATES e")
    case True
    then show ?thesis
      by (simp add: pg_counters_step_cases Cons.IH absorb_Cons
          ok_entries_def warn_entries_def critical_entries_def)
  next
    case no_crit: False
    show ?thesis
    proof (cases "has_label WARN_STATES e")
      case True
      then show ?thesis
        using no_crit
        by (simp add: pg_counters_step_cases Cons.IH absorb_Cons
            ok_entries_def warn_entries_def critical_entries_def)
    next
      case no_warn: False
      show ?thesis
        using no_crit no_warn
        by (cases "has_label OKAY_STATES e")
           (simp_all add: pg_counters_step_cases Cons.IH absorb_Cons
            ok_entries_def warn_entries_def critical_entries_def)
    qed
  qed
qed

lemma absorb_zero:
  "absorb classifier es (0, Map.empty) =
     (sev_count (bucket classifier es), sev_states (bucket classifier es))"
  by (auto simp: absorb_def bucket_def dget_def fun_eq_iff)

text \<open>
  C3. When the status can be fetched, \<^verbatim>\<open>_calculate_pg_counters\<close> returns these
  counters. Every entry of \<^verbatim>\<open>pgs_by_state\<close> whose state string (split at the
  \<open>+\<close> signs, each piece lower-cased) has a label of the critical set
  \<open>{stale, down, peering, inconsistent, incomplete}\<close> is counted in the critical bucket,
  and in the sub-count of each critical label it has, and in no other bucket, whatever
  warn or ok labels it also has. The entries without a critical label and with a warn
  label make up the warn bucket in the same way, the entries with neither and with an ok
  label the ok bucket, and an entry with none of the known labels is counted nowhere.
\<close>

theorem pg_classifier_precedence:
  assumes "get_status c = Inr status"
  shows "calculate_pg_counters c =
     Inr \<lparr>t_ok = bucket OKAY_STATES (ok_entries (st_pgs_by_state status)),
          t_warn = bucket WARN_STATES (warn_entries (st_pgs_by_state status)),
          t_critical = bucket CRIT_STATES (critical_entries (st_pgs_by_state status))\<rparr>"
  by (simp add: calculate_pg_counters_def assms foldl_pg_counters_step absorb_zero)

text \<open>Four entries: ok, warn (with capitals), critical, and critical next to ok labels.\<close>

theorem pg_classifier_precedence_witness:
  "get_status pg_status_client =
     Inr \<lparr>st_mdsmap = \<lparr>mds_max = 1, mds_up = 1, mds_in = 1\<rparr>, st_mons = [], st_quorum = [],
          st_pgs_by_state =
            [\<lparr>pse_state_name = ''active+clean'', pse_count = 1\<rparr>,
             \<lparr>pse_state_name = ''Active+Degraded'', pse_count = 4\<rparr>,
             \<lparr>pse_state_name = ''down+peering'', pse_count = 2\<rparr>,
             \<lparr>pse_state_name = ''stale+active+clean+down'', pse_count = 1\<rparr>]\<rparr>
   \<and> (\<exists>t. calculate_pg_counters pg_status_client = Inr t
          \<and> sev_count (t_ok t) = 1 \<and> sev_count (t_warn t) = 4 \<and> sev_count (t_critical t) = 3
          \<and> map (sev_states (t_critical t)) [''down'', ''peering'', ''stale'', ''active'', ''clean'']
              = [Some 3, Some 2, Some 1, None, None]
          \<and> map (sev_states (t_warn t)) [''degraded'', ''active''] = [Some 4, None]
          \<and> map (sev_states (t_ok t)) [''active'', ''clean'', ''down''] = [Some 1, Some 1, None])"
proof -
  let ?status = "\<lparr>st_mdsmap = \<lparr>mds_max = 1, mds_up = 1, mds_in = 1\<rparr>, st_mons = [],
          st_quorum = [],
          st_pgs_by_state =
            [\<lparr>pse_state_name = ''active+clean'', pse_count = 1\<rparr>,
             \<lparr>pse_state_name = ''Active+Degraded'', pse_count = 4\<rparr>,
             \<lparr>pse_state_name = ''down+peering'', pse_count = 2\<rparr>,
             \<lparr>pse_state_name = ''stale+active+clean+down'', pse_count = 1\<rparr>]\<rparr>"
  have fetched: "get_status pg_status_client = Inr ?status"
    by (simp add: pg_status_client_def)
  have labels:
    "labels_of \<lparr>pse_state_name = ''active+clean'', pse_count = 1\<rparr> = [''active'', ''clean'']"
    "labels_of \<lparr>pse_state_name = ''Active+Degraded'', pse_count = 4\<rparr> = [''active'', ''degraded'']"
    "labels_of \<lparr>pse_state_name = ''down+peering'', pse_count = 2\<rparr> = [''down'', ''peering'']"
    "labels_of \<lparr>pse_state_name = ''stale+active+clean+down'', pse_count = 1\<rparr> =
       [''stale'', ''active'', ''clean'', ''down'']"
    by (simp_all add: labels_of_def split_def lower_def lower_char_def upper_chars_def
        lower_chars_def)
  show ?thesis
    using fetched pg_classifier_precedence [OF fetched]
    by (simp add: bucket_def ok_entries_def warn_entries_def critical_entries_def
        has_label_def labels CRIT_STATES_def WARN_STATES_def OKAY_STATES_def)
qed

subsection \<open>The OSD classifier\<close>

lemma foldl_tally_osd:
  "foldl tally_osd a osds =
     a\<lparr>not_up_not_in := not_up_not_in a
          + int (length (filter (\<lambda>x. osd_up x = 0 \<and> osd_in x = 0) osds)),
       not_up_in := not_up_in a
          + int (length (filter (\<lambda>x. osd_up x = 0 \<and> osd_in x \<noteq> 0) osds)),
       up_not_in := up_not_in a
          + int (length (filter (\<lambda>x. osd_up x \<noteq> 0 \<and> osd_in x = 0) osds)),
       up_in := up_in a
          + int (length (filter (\<lambda>x. osd_up x \<noteq> 0 \<and> osd_in x \<noteq> 0) osds))\<rparr>"
proof (induction osds arbitrary: a)
  case Nil
  then show ?case by simp
next
  case (Cons x xs)
  show ?case
    by (simp add: Cons.IH) (simp add: tally_osd_def Let_def)
qed

lemma four_way:
  "length (filter (\<lambda>x. osd_up x \<noteq> 0 \<and> osd_in x \<noteq> 0) osds)
   + (length (filter (\<lambda>x. osd_up x \<noteq> 0 \<and> osd_in x = 0) osds)
      + length (filter (\<lambda>x. osd_up x = 0 \<and> osd_in x \<noteq> 0) osds))
   + length (filter (\<lambda>x. osd_up x = (0::int) \<and> osd_in x = (0::int)) osds) = length osds"
  by (induction osds) auto

lemma one_flag:
  "length (filter (\<lambda>x. (osd_up x \<noteq> 0) \<noteq> (osd_in x \<noteq> 0)) osds) =
      length (filter (\<lambda>x. osd_up x \<noteq> 0 \<and> osd_in x = 0) osds)
      + length (filter (\<lambda>x. osd_up x = (0::int) \<and> osd_in x \<noteq> (0::int)) osds)"
  by (induction osds) auto

text \<open>
  C6. When the OSD map can be fetched, \<^verbatim>\<open>_calculate_osd_counters\<close> returns
  counters in which ok counts the OSDs that are up and in, warn those with exactly one of
  the two flags, critical those with neither; the three counts add up to the number of
  OSDs of the map.
\<close>

theorem osd_counters_partition:
  assumes "get_osds c = Inr osd_map"
  shows "\<exists>t. calculate_osd_counters c = Inr t
     \<and> sev_count (t_ok t) =
         int (length (filter (\<lambda>x. osd_up x \<noteq> 0 \<and> osd_in x \<noteq> 0) (od_osds osd_map)))
     \<and> sev_count (t_warn t) =
         int (length (filter (\<lambda>x. (osd_up x \<noteq> 0) \<noteq> (osd_in x \<noteq> 0)) (od_osds osd_map)))
     \<and> sev_count (t_critical t) =
         int (length (filter (\<lambda>x. osd_up x = 0 \<and> osd_in x = 0) (od_osds osd_map)))
     \<and> sev_count (t_ok t) + sev_count (t_warn t) + sev_count (t_critical t) =
         int (length (od_osds osd_map))"
proof -
  let ?osds = "od_osds osd_map"
  show ?thesis
    using four_way [of ?osds] one_flag [of ?osds]
    by (simp add: calculate_osd_counters_def assms Let_def foldl_tally_osd)
qed

text \<open>Three OSDs, two of them up and in, one down and out.\<close>

theorem osd_counters_partition_witness:
  "get_osds (cluster_with [osd_at 0 ''10.0.0.1:6800/1'' 1 1, osd_at 1 ''10.0.0.2:6800/1'' 1 1,
                           osd_at 2 ''10.0.0.3:6800/1'' 0 0] []) =
     Inr \<lparr>od_osds = [osd_at 0 ''10.0.0.1:6800/1'' 1 1, osd_at 1 ''10.0.0.2:6800/1'' 1 1,
                     osd_at 2 ''10.0.0.3:6800/1'' 0 0], od_pools = []\<rparr>
   \<and> (\<exists>t. calculate_osd_counters
             (cluster_with [osd_at 0 ''10.0.0.1:6800/1'' 1 1, osd_at 1 ''10.0.0.2:6800/1'' 1 1,
                            osd_at 2 ''10.0.0.3:6800/1'' 0 0] []) = Inr t
          \<and> sev_count (t_ok t) = 2 \<and> sev_count (t_warn t) = 0
          \<and> sev_count (t_critical t) = 1)"
proof -
  let ?osds = "[osd_at 0 ''10.0.0.1:6800/1'' 1 1, osd_at 1 ''10.0.0.2:6800/1'' 1 1,
                osd_at 2 ''10.0.0.3:6800/1'' 0 0]"
  have fetched: "get_osds (cluster_with ?osds []) = Inr \<lparr>od_osds = ?osds, od_pools = []\<rparr>"
    by (simp add: cluster_with_def)
  obtain t where t: "calculate_osd_counters (cluster_with ?osds []) = Inr t"
      "sev_count (t_ok t) = 2" "sev_count (t_warn t) = 0" "sev_count (t_critical t) = 1"
    using osd_counters_partition [OF fetched] by (auto simp: osd_at_def)
  show ?thesis
    using fetched t by blast
qed

subsection \<open>The monitor probe\<close>






text \<open>The probe without its exception handling: what it answers for each outcome of the
  two patterns and of the connection.\<close>

lemma probe_of_match:
  "try_mon_connect E mon =
     (case (case match_IPV4_RE (mon_addr mon) of Some g \<Rightarrow> Some g
            | None \<Rightarrow> match_IPV6_RE (mon_addr mon)) of
        None \<Rightarrow> (False, [])
      | Some (ip, port) \<Rightarrow>
          if ip \<in> set MON_ADDR_IGNORES then (False, [])
          else (case create_connection E ip (nat_of_digits port) of
                  Inl e \<Rightarrow> (False, [(ip, nat_of_digits port)])
                | Inr sock \<Rightarrow> (True, [(ip, nat_of_digits port)])))"
  by (simp add: try_mon_connect_def mon_connect_body_def Let_def
      split: option.splits sum.splits prod.splits socket.splits)











text \<open>A monitor that accepts the connection is reachable even when closing the socket
  raises; an address that matches neither pattern is not, and nothing is attempted.\<close>

lemma try_mon_connect_examples:
  "try_mon_connect ((example_env quiet_client)\<lparr>create_connection :=
       (\<lambda>_ _. Inr (Socket (Some SocketError)))\<rparr>) (mon_at 1 ''b'' ''10.0.1.2:6789/0'')
     = (True, [(''10.0.1.2'', 6789)])"
  "try_mon_connect (example_env quiet_client) (mon_at 1 ''b'' ''mon-b.example.com:6789/0'')
     = (False, [])"
  by (simp_all add: probe_of_match example_env_def mon_at_def match_IPV4_RE_def
      match_IPV6_RE_def match_digits_def match_char_def match_port_def isdigit_def isspace_def
      MON_ADDR_IGNORES_def nat_of_digits_def digit_val_def Let_def)

subsection \<open>The registry: what the code does on concrete inputs\<close>

text \<open>The recursion of \<open>find_descendants\<close> in a form that unfolds at a numeral depth.\<close>

lemma find_descendants_unfold:
  "find_descendants n nodes_by_id fn cursor =
     (if n = 0 then Inl RuntimeError
      else if fn cursor then Inr [cursor]
      else find_in_children (n - 1) nodes_by_id fn (cn_children cursor) [])"
  by (cases n) simp_all

lemmas example_defs = example_env_def quiet_client_def osd_at_def mon_at_def cluster_with_def
  example_cluster_def example_db_def example_state_def next_pass_def registry_def registry_of_def
  pass_def register_step_def five_mons_def quota_client_def

lemmas registry_defs = refresh_servers_def register_service_def register_created_def
  guess_hostname_def Server_get_or_create_def ServiceStatus_get_or_create_def Server_save_def
  ServiceStatus_save_def ServiceStatus_delete_def Server_delete_def server__cluster_def
  short_addr_def split_def crush_osd_hostnames_def reverse_dns_def str_int_def Let_def
  find_descendants_unfold

text \<open>
  C1. The filter of \<^verbatim>\<open>_register_service\<close> that deletes the old record of a
  migrated service selects the type \<^verbatim>\<open>ServiceStatus.OSD\<close> whatever the type of the
  service being registered. A monitor of rank 0 seen at 10.0.0.1 in one pass and at
  10.0.0.2 in the next: after the registration step of the second pass both
  ServiceStatus rows of kind MON and identity 0 exist, one on each server. A monitor of
  rank 0 registered at 10.0.0.2 after the OSD 0 was registered at 10.0.0.1: the record of
  the OSD is deleted. An OSD 0 seen at 10.0.0.1 and then registered at 10.0.0.2: the old
  record is deleted. The rows are (id, address) for the servers and
  (id, server id, kind, identity) for the services.
\<close>

theorem register_service_monitor_migration:
  "registry_of (register_step (cluster_with [] [mon_at 0 ''a'' ''10.0.0.2:6789/0''])
       ''10.0.0.2'' MON 0 ''mon.a''
       (pass (cluster_with [] [mon_at 0 ''a'' ''10.0.0.1:6789/0'']) (Inr example_state)))
     = Inr ([(1, ''10.0.0.1''), (2, ''10.0.0.2'')], [(1, 1, MON, 0), (2, 2, MON, 0)])
   \<and> registry_of (register_step (cluster_with [osd_at 0 ''10.0.0.1:6800/1234'' 1 1]
                                    [mon_at 0 ''a'' ''10.0.0.2:6789/0''])
       ''10.0.0.2'' MON 0 ''mon.a''
       (register_step (cluster_with [osd_at 0 ''10.0.0.1:6800/1234'' 1 1]
                                    [mon_at 0 ''a'' ''10.0.0.2:6789/0''])
          ''10.0.0.1'' OSD 0 ''osd.0'' (Inr example_state)))
     = Inr ([(1, ''10.0.0.1''), (2, ''10.0.0.2'')], [(2, 2, MON, 0)])
   \<and> registry_of (register_step (cluster_with [osd_at 0 ''10.0.0.2:6800/1234'' 1 1] [])
       ''10.0.0.2'' OSD 0 ''osd.0''
       (pass (cluster_with [osd_at 0 ''10.0.0.1:6800/1234'' 1 1] []) (Inr example_state)))
     = Inr ([(1, ''10.0.0.1''), (2, ''10.0.0.2'')], [(2, 2, OSD, 0)])"
  by (simp add: example_defs registry_defs del: set_map set_filter)

text \<open>
  C4. The OSD 5 is seen at 10.0.0.1 in the first pass and at 10.0.0.2 in the second; the
  cluster has the monitors of rank 0 to 4, and a sixth monitor, of rank 5, appears at
  10.0.1.6 in the second pass. After the second pass no ServiceStatus of kind OSD and
  identity 5 is left: registering the new monitor has deleted it. The server at 10.0.0.1
  is deleted.
\<close>

theorem osd_migration_with_new_monitor:
  "registry_of
     (pass (cluster_with [osd_at 5 ''10.0.0.2:6800/1234'' 1 1]
                         (five_mons @ [mon_at 5 ''f'' ''10.0.1.6:6789/0'']))
        (pass (cluster_with [osd_at 5 ''10.0.0.1:6800/1234'' 1 1] five_mons)
           (Inr example_state)))
     = Inr ([(2, ''10.0.1.1''), (3, ''10.0.1.2''), (4, ''10.0.1.3''), (5, ''10.0.1.4''),
             (6, ''10.0.1.5''), (7, ''10.0.0.2''), (8, ''10.0.1.6'')],
            [(2, 2, MON, 0), (3, 3, MON, 1), (4, 4, MON, 2), (5, 5, MON, 3), (6, 6, MON, 4),
             (8, 8, MON, 5)])"
  by (simp add: example_defs registry_defs del: set_map set_filter)

text \<open>The same migration when no monitor is new: one record for the OSD 5, on the server
  at 10.0.0.2, and the server at 10.0.0.1 is gone.\<close>

lemma osd_migration_alone:
  "registry_of
     (pass (cluster_with [osd_at 5 ''10.0.0.2:6800/1234'' 1 1] five_mons)
        (pass (cluster_with [osd_at 5 ''10.0.0.1:6800/1234'' 1 1] five_mons)
           (Inr example_state)))
     = Inr ([(2, ''10.0.1.1''), (3, ''10.0.1.2''), (4, ''10.0.1.3''), (5, ''10.0.1.4''),
             (6, ''10.0.1.5''), (7, ''10.0.0.2'')],
            [(2, 2, MON, 0), (3, 3, MON, 1), (4, 4, MON, 2), (5, 5, MON, 3), (6, 6, MON, 4),
             (7, 7, OSD, 5)])"
  by (simp add: example_defs registry_defs del: set_map set_filter)

text \<open>
  C5. A cluster with the OSD 0 at 10.0.0.1 and the monitor of rank 0 at 10.0.0.2,
  reconciled twice from an empty registry. The first run leaves the record of the
  monitor only, because registering the monitor deletes the record of the OSD 0; the
  second run creates the record of the OSD again, so the state after the first run is
  no fixed point.
\<close>

theorem reconcile_twice:
  "registry_of (pass (cluster_with [osd_at 0 ''10.0.0.1:6800/1234'' 1 1]
                                   [mon_at 0 ''a'' ''10.0.0.2:6789/0''])
                  (Inr example_state))
     = Inr ([(1, ''10.0.0.1''), (2, ''10.0.0.2'')], [(2, 2, MON, 0)])
   \<and> registry_of (pass (cluster_with [osd_at 0 ''10.0.0.1:6800/1234'' 1 1]
                                      [mon_at 0 ''a'' ''10.0.0.2:6789/0''])
                  (pass (cluster_with [osd_at 0 ''10.0.0.1:6800/1234'' 1 1]
                                      [mon_at 0 ''a'' ''10.0.0.2:6789/0''])
                     (Inr example_state)))
     = Inr ([(1, ''10.0.0.1''), (2, ''10.0.0.2'')], [(2, 2, MON, 0), (3, 1, OSD, 0)])"
  by (simp add: example_defs registry_defs del: set_map set_filter)

text \<open>
  C8. \<^verbatim>\<open>_short_addr\<close> itself gives the bare IP of a bracketed IPv6 address, but
  \<^verbatim>\<open>_refresh_servers\<close> cuts the raw address at its first colon before it calls
  \<^verbatim>\<open>_short_addr\<close>. Two OSDs at \<^verbatim>\<open>[fe80::1]\<close> and \<^verbatim>\<open>[fe80::2]\<close>: one
  Server, keyed \<open>fe80\<close>, holds both.
\<close>

theorem refresh_servers_ipv6_key:
  "short_addr ''[fe80::1]:6800/1234'' = ''fe80::1''
   \<and> short_addr (hd (split ''[fe80::1]:6800/1234'' '':'')) = ''fe80''
   \<and> registry_of (pass (cluster_with [osd_at 0 ''[fe80::1]:6800/1234'' 1 1,
                                       osd_at 1 ''[fe80::2]:6800/1234'' 1 1] [])
                  (Inr example_state))
     = Inr ([(1, ''fe80'')], [(1, 1, OSD, 0), (2, 1, OSD, 1)])"
  by (simp add: example_defs registry_defs del: set_map set_filter)

text \<open>An IPv4 address is cut to its IP.\<close>

lemma refresh_servers_ipv4_key:
  "registry_of (pass (cluster_with [osd_at 0 ''192.168.0.1:6800/0'' 1 1] [])
                  (Inr example_state))
     = Inr ([(1, ''192.168.0.1'')], [(1, 1, OSD, 0)])"
  by (simp add: example_defs registry_defs del: set_map set_filter)

subsection \<open>The pools: what the code does on a concrete input\<close>

text \<open>
  C7. A pool with a quota of 1000 bytes and 5 objects, and df statistics: the stored
  record has 1000 in both quota fields, because \<^verbatim>\<open>_populate_pools\<close> reads
  \<^verbatim>\<open>quota_max_bytes\<close> for both. The rows are (pool id, name, quota_max_bytes,
  quota_max_objects, used_bytes, used_objects).
\<close>

theorem populate_pools_quota:
  "(case populate_pools (example_env quota_client) quota_client example_state of
      Inl (e, st) \<Rightarrow> Inl e
    | Inr st \<Rightarrow>
        Inr (map (\<lambda>r. (pool_pool_id r, pool_name r, pool_quota_max_bytes r,
                       pool_quota_max_objects r, pool_used_bytes r, pool_used_objects r))
               (Pool_objects (db st))))
     = Inr [(0, ''data'', 1000, 1000, 10, 2)]"
  by (simp add: example_defs populate_pools_def populate_pool_def Let_def)

subsection \<open>One pass: the order of the steps\<close>





lemma populate_attrs:
  "filter (\<lambda>a. startswith a ''_populate_'') dir_ModelAdapter =
     [''_populate_counters'', ''_populate_health'', ''_populate_osds_and_pgs'',
      ''_populate_pools'', ''_populate_space'']"
  by (simp add: dir_ModelAdapter_def ModelAdapter_names_def)


lemma populate_space_Inr:
  "populate_space E c s = Inr s' \<Longrightarrow>
   populate_space E c t = Inr (t\<lparr>cluster := (cluster t)\<lparr>cl_space := cl_space (cluster s')\<rparr>\<rparr>)"
  by (auto simp: populate_space_def Let_def split: sum.splits)


lemma populate_health_Inr:
  "populate_health E c s = Inr s' \<Longrightarrow>
   populate_health E c t = Inr (t\<lparr>cluster := (cluster t)\<lparr>cl_health := cl_health (cluster s')\<rparr>\<rparr>)"
  by (auto simp: populate_health_def Let_def split: sum.splits)


lemma populate_counters_Inr:
  "populate_counters E c s = Inr s' \<Longrightarrow>
   populate_counters E c t =
     Inr (t\<lparr>cluster := (cluster t)\<lparr>cl_counters := cl_counters (cluster s')\<rparr>\<rparr>)"
  by (auto simp: populate_counters_def Let_def split: sum.splits)


lemma populate_pools_Inr:
  "populate_pools E c s = Inr s' \<Longrightarrow> db t = db s \<Longrightarrow> cl_id (cluster t) = cl_id (cluster s) \<Longrightarrow>
   populate_pools E c t = Inr (t\<lparr>db := db s'\<rparr>)"
  by (auto simp: populate_pools_def Let_def split: sum.splits)


lemma populate_osds_and_pgs_Inr:
  "populate_osds_and_pgs E c s = Inr s' \<Longrightarrow> osd_name_to_server t = osd_name_to_server s \<Longrightarrow>
   populate_osds_and_pgs E c t =
     Inr (t\<lparr>cluster := (cluster t)\<lparr>cl_pgs := cl_pgs (cluster s'),
            cl_osds_by_pg_state := cl_osds_by_pg_state (cluster s'),
            cl_osds := cl_osds (cluster s')\<rparr>\<rparr>)"
  by (auto simp: populate_osds_and_pgs_def Let_def split: sum.splits)

lemma populate_counters_eq:
  "populate_counters E c s = Inr s' \<Longrightarrow>
   s' = s\<lparr>cluster := (cluster s)\<lparr>cl_counters := cl_counters (cluster s')\<rparr>\<rparr>"
  using populate_counters_Inr [of E c s s' s] by simp

lemma populate_health_eq:
  "populate_health E c s = Inr s' \<Longrightarrow>
   s' = s\<lparr>cluster := (cluster s)\<lparr>cl_health := cl_health (cluster s')\<rparr>\<rparr>"
  using populate_health_Inr [of E c s s' s] by simp

lemma populate_space_eq:
  "populate_space E c s = Inr s' \<Longrightarrow>
   s' = s\<lparr>cluster := (cluster s)\<lparr>cl_space := cl_space (cluster s')\<rparr>\<rparr>"
  using populate_space_Inr [of E c s s' s] by simp

lemma populate_pools_eq:
  "populate_pools E c s = Inr s' \<Longrightarrow> s' = s\<lparr>db := db s'\<rparr>"
  using populate_pools_Inr [of E c s s' s] by simp

lemma populate_osds_and_pgs_eq:
  "populate_osds_and_pgs E c s = Inr s' \<Longrightarrow>
   s' = s\<lparr>cluster := (cluster s)\<lparr>cl_pgs := cl_pgs (cluster s'),
            cl_osds_by_pg_state := cl_osds_by_pg_state (cluster s'),
            cl_osds := cl_osds (cluster s')\<rparr>\<rparr>"
  using populate_osds_and_pgs_Inr [of E c s s' s] by simp

lemma impl_order_alone:
  "(in_order [populate_counters, populate_health, populate_osds_and_pgs,
              populate_pools, populate_space] E c s = Inr s') = alone E c s s'"
proof
  assume "in_order [populate_counters, populate_health, populate_osds_and_pgs,
              populate_pools, populate_space] E c s = Inr s'"
  then obtain s2 s3 s4 s5 where
    1: "populate_counters E c s = Inr s2" and 2: "populate_health E c s2 = Inr s3" and
    3: "populate_osds_and_pgs E c s3 = Inr s4" and 4: "populate_pools E c s4 = Inr s5" and
    5: "populate_space E c s5 = Inr s'"
    by (auto simp: in_order_def split: sum.splits)
  define vc where "vc = cl_counters (cluster s2)"
  define vh where "vh = cl_health (cluster s3)"
  define vp where "vp = cl_pgs (cluster s4)"
  define vs where "vs = cl_osds_by_pg_state (cluster s4)"
  define vo where "vo = cl_osds (cluster s4)"
  define vd where "vd = db s5"
  define vf where "vf = cl_space (cluster s')"
  have e1: "s2 = s\<lparr>cluster := (cluster s)\<lparr>cl_counters := vc\<rparr>\<rparr>"
    unfolding vc_def by (rule populate_counters_eq [OF 1])
  have e2: "s3 = s\<lparr>cluster := (cluster s)\<lparr>cl_counters := vc, cl_health := vh\<rparr>\<rparr>"
    using populate_health_eq [OF 2] unfolding vh_def [symmetric] by (simp add: e1)
  have e3: "s4 = s\<lparr>cluster := (cluster s)\<lparr>cl_counters := vc, cl_health := vh,
                 cl_pgs := vp, cl_osds_by_pg_state := vs, cl_osds := vo\<rparr>\<rparr>"
    using populate_osds_and_pgs_eq [OF 3]
    unfolding vp_def [symmetric] vs_def [symmetric] vo_def [symmetric] by (simp add: e2)
  have e4: "s5 = s\<lparr>db := vd, cluster := (cluster s)\<lparr>cl_counters := vc, cl_health := vh,
                 cl_pgs := vp, cl_osds_by_pg_state := vs, cl_osds := vo\<rparr>\<rparr>"
    using populate_pools_eq [OF 4] unfolding vd_def [symmetric] by (simp add: e3)
  have e5: "s' = s\<lparr>db := vd, cluster := (cluster s)\<lparr>cl_counters := vc, cl_health := vh,
                 cl_pgs := vp, cl_osds_by_pg_state := vs, cl_osds := vo, cl_space := vf\<rparr>\<rparr>"
    using populate_space_eq [OF 5] unfolding vf_def [symmetric] by (simp add: e4)
  have a: "populate_health E c s = Inr (s\<lparr>cluster := (cluster s)\<lparr>cl_health := vh\<rparr>\<rparr>)"
    unfolding vh_def by (rule populate_health_Inr [OF 2])
  have b: "populate_osds_and_pgs E c s = Inr (s\<lparr>cluster := (cluster s)\<lparr>cl_pgs := vp,
            cl_osds_by_pg_state := vs, cl_osds := vo\<rparr>\<rparr>)"
    unfolding vp_def vs_def vo_def
    by (rule populate_osds_and_pgs_Inr [OF 3]) (simp add: e2)
  have d: "populate_pools E c s = Inr (s\<lparr>db := vd\<rparr>)"
    unfolding vd_def by (rule populate_pools_Inr [OF 4]) (simp_all add: e3)
  have f: "populate_space E c s = Inr (s\<lparr>cluster := (cluster s)\<lparr>cl_space := vf\<rparr>\<rparr>)"
    unfolding vf_def by (rule populate_space_Inr [OF 5])
  show "alone E c s s'"
    unfolding alone_def
    apply (rule exI [of _ s2], rule exI, rule exI, rule exI, rule exI)
    apply (intro conjI)
         apply (rule 1)
        apply (rule a)
       apply (rule b)
      apply (rule d)
     apply (rule f)
    apply (simp add: e5 e1)
    done
next
  assume "alone E c s s'"
  then obtain a b d e f where
    1: "populate_counters E c s = Inr a" and 2: "populate_health E c s = Inr b" and
    3: "populate_osds_and_pgs E c s = Inr d" and 4: "populate_pools E c s = Inr e" and
    5: "populate_space E c s = Inr f" and
    s': "s' = s\<lparr>db := db e,
                  cluster := (cluster s)\<lparr>cl_counters := cl_counters (cluster a),
                    cl_health := cl_health (cluster b),
                    cl_pgs := cl_pgs (cluster d),
                    cl_osds_by_pg_state := cl_osds_by_pg_state (cluster d),
                    cl_osds := cl_osds (cluster d),
                    cl_space := cl_space (cluster f)\<rparr>\<rparr>"
    unfolding alone_def by blast
  show "in_order [populate_counters, populate_health, populate_osds_and_pgs,
              populate_pools, populate_space] E c s = Inr s'"
    unfolding in_order_def s'
    by (simp add: populate_counters_Inr [OF 1] populate_health_Inr [OF 2]
        populate_osds_and_pgs_Inr [OF 3] populate_pools_Inr [OF 4] populate_space_Inr [OF 5])
qed

lemma foldl_raised:
  "foldl (\<lambda>r step. case r of Inl x \<Rightarrow> Inl x | Inr st \<Rightarrow> step E c st) (Inl x) steps = Inl x"
  by (induction steps) simp_all

lemma in_order_Nil: "in_order [] E c st = Inr st"
  by (simp add: in_order_def)

lemma in_order_Cons:
  "in_order (step # steps) E c st =
     (case step E c st of Inl x \<Rightarrow> Inl x | Inr s \<Rightarrow> in_order steps E c s)"
  by (cases "step E c st") (simp_all add: in_order_def foldl_raised)

lemma refresh_unfold:
  "refresh E c st =
     in_order [refresh_servers, populate_counters, populate_health, populate_osds_and_pgs,
               populate_pools, populate_space, save_cluster] E c st"
  by (simp add: refresh_def populate_attrs getattr_def in_order_Cons in_order_Nil
      save_cluster_def split: sum.splits)

lemma spec_order_alone:
  "(in_order [populate_space, populate_health, populate_pools, populate_osds_and_pgs,
              populate_counters] E c s = Inr s') = alone E c s s'"
proof
  assume "in_order [populate_space, populate_health, populate_pools, populate_osds_and_pgs,
              populate_counters] E c s = Inr s'"
  then obtain s2 s3 s4 s5 where
    1: "populate_space E c s = Inr s2" and 2: "populate_health E c s2 = Inr s3" and
    3: "populate_pools E c s3 = Inr s4" and 4: "populate_osds_and_pgs E c s4 = Inr s5" and
    5: "populate_counters E c s5 = Inr s'"
    by (auto simp: in_order_Cons in_order_Nil split: sum.splits)
  define vf where "vf = cl_space (cluster s2)"
  define vh where "vh = cl_health (cluster s3)"
  define vd where "vd = db s4"
  define vp where "vp = cl_pgs (cluster s5)"
  define vs where "vs = cl_osds_by_pg_state (cluster s5)"
  define vo where "vo = cl_osds (cluster s5)"
  define vc where "vc = cl_counters (cluster s')"
  have e1: "s2 = s\<lparr>cluster := (cluster s)\<lparr>cl_space := vf\<rparr>\<rparr>"
    unfolding vf_def by (rule populate_space_eq [OF 1])
  have e2: "s3 = s\<lparr>cluster := (cluster s)\<lparr>cl_space := vf, cl_health := vh\<rparr>\<rparr>"
    using populate_health_eq [OF 2] unfolding vh_def [symmetric] by (simp add: e1)
  have e3: "s4 = s\<lparr>db := vd, cluster := (cluster s)\<lparr>cl_space := vf, cl_health := vh\<rparr>\<rparr>"
    using populate_pools_eq [OF 3] unfolding vd_def [symmetric] by (simp add: e2)
  have e4: "s5 = s\<lparr>db := vd, cluster := (cluster s)\<lparr>cl_space := vf, cl_health := vh,
                 cl_pgs := vp, cl_osds_by_pg_state := vs, cl_osds := vo\<rparr>\<rparr>"
    using populate_osds_and_pgs_eq [OF 4]
    unfolding vp_def [symmetric] vs_def [symmetric] vo_def [symmetric] by (simp add: e3)
  have e5: "s' = s\<lparr>db := vd, cluster := (cluster s)\<lparr>cl_space := vf, cl_health := vh,
                 cl_pgs := vp, cl_osds_by_pg_state := vs, cl_osds := vo, cl_counters := vc\<rparr>\<rparr>"
    using populate_counters_eq [OF 5] unfolding vc_def [symmetric] by (simp add: e4)
  have a: "populate_counters E c s = Inr (s\<lparr>cluster := (cluster s)\<lparr>cl_counters := vc\<rparr>\<rparr>)"
    unfolding vc_def by (rule populate_counters_Inr [OF 5])
  have b: "populate_health E c s = Inr (s\<lparr>cluster := (cluster s)\<lparr>cl_health := vh\<rparr>\<rparr>)"
    unfolding vh_def by (rule populate_health_Inr [OF 2])
  have d: "populate_osds_and_pgs E c s = Inr (s\<lparr>cluster := (cluster s)\<lparr>cl_pgs := vp,
            cl_osds_by_pg_state := vs, cl_osds := vo\<rparr>\<rparr>)"
    unfolding vp_def vs_def vo_def
    by (rule populate_osds_and_pgs_Inr [OF 4]) (simp add: e3)
  have e: "populate_pools E c s = Inr (s\<lparr>db := vd\<rparr>)"
    unfolding vd_def by (rule populate_pools_Inr [OF 3]) (simp_all add: e2)
  show "alone E c s s'"
    unfolding alone_def
    apply (rule exI, rule exI, rule exI, rule exI, rule exI [of _ s2])
    apply (intro conjI)
         apply (rule a)
        apply (rule b)
       apply (rule d)
      apply (rule e)
     apply (rule 1)
    apply (simp add: e5 e1)
    done
next
  assume "alone E c s s'"
  then obtain a b d e f where
    1: "populate_counters E c s = Inr a" and 2: "populate_health E c s = Inr b" and
    3: "populate_osds_and_pgs E c s = Inr d" and 4: "populate_pools E c s = Inr e" and
    5: "populate_space E c s = Inr f" and
    s': "s' = s\<lparr>db := db e,
                  cluster := (cluster s)\<lparr>cl_counters := cl_counters (cluster a),
                    cl_health := cl_health (cluster b),
                    cl_pgs := cl_pgs (cluster d),
                    cl_osds_by_pg_state := cl_osds_by_pg_state (cluster d),
                    cl_osds := cl_osds (cluster d),
                    cl_space := cl_space (cluster f)\<rparr>\<rparr>"
    unfolding alone_def by blast
  show "in_order [populate_space, populate_health, populate_pools, populate_osds_and_pgs,
              populate_counters] E c s = Inr s'"
    unfolding s'
    by (simp add: in_order_Cons in_order_Nil populate_counters_Inr [OF 1]
        populate_health_Inr [OF 2] populate_osds_and_pgs_Inr [OF 3] populate_pools_Inr [OF 4]
        populate_space_Inr [OF 5])
qed

lemma pass_Inr:
  "(in_order (refresh_servers # steps @ [save_cluster]) E c st = Inr s') =
     (\<exists>s1 s2. refresh_servers E c st = Inr s1 \<and> in_order steps E c s1 = Inr s2
          \<and> s' = s2\<lparr>db := Cluster_save (db s2) (cluster s2)\<rparr>)"
proof -
  have app: "in_order (xs @ [save_cluster]) E c s =
      (case in_order xs E c s of Inl x \<Rightarrow> Inl x
       | Inr t \<Rightarrow> Inr (t\<lparr>db := Cluster_save (db t) (cluster t)\<rparr>))" for xs s
  proof (induction xs arbitrary: s)
    case Nil
    then show ?case by (simp add: in_order_Cons in_order_Nil save_cluster_def)
  next
    case (Cons x xs)
    then show ?case by (simp add: in_order_Cons split: sum.splits)
  qed
  show ?thesis
    by (auto simp: in_order_Cons app split: sum.splits)
qed

text \<open>
  C10. \<^verbatim>\<open>refresh\<close> runs reconciliation first, then the populate methods in the
  order in which \<^verbatim>\<open>dir\<close> lists their names, which is alphabetical: counters,
  health, OSDs and PGs, pools, space; then it saves the cluster. This is not the order of
  the specification (space, health, pools, OSDs and PGs, counters), but a pass ends
  without an exception in one order exactly when it does in the other, and then with the
  same state.
\<close>

theorem refresh_order:
  "refresh E c st =
     in_order [refresh_servers, populate_counters, populate_health, populate_osds_and_pgs,
               populate_pools, populate_space, save_cluster] E c st
   \<and> (\<forall>s'. (refresh E c st = Inr s') = (spec_refresh E c st = Inr s'))"
proof -
  have impl: "(refresh E c st = Inr s') =
     (\<exists>s1 s2. refresh_servers E c st = Inr s1 \<and> alone E c s1 s2
          \<and> s' = s2\<lparr>db := Cluster_save (db s2) (cluster s2)\<rparr>)" for s'
    using pass_Inr [of "[populate_counters, populate_health, populate_osds_and_pgs,
               populate_pools, populate_space]" E c st s']
    by (simp add: refresh_unfold impl_order_alone)
  have spec: "(spec_refresh E c st = Inr s') =
     (\<exists>s1 s2. refresh_servers E c st = Inr s1 \<and> alone E c s1 s2
          \<and> s' = s2\<lparr>db := Cluster_save (db s2) (cluster s2)\<rparr>)" for s'
    using pass_Inr [of "[populate_space, populate_health, populate_pools,
               populate_osds_and_pgs, populate_counters]" E c st s']
    by (simp add: spec_refresh_def spec_order_alone)
  show ?thesis
    by (simp add: refresh_unfold [symmetric] impl spec)
qed

lemmas pass_defs = refresh_unfold in_order_Cons in_order_Nil save_cluster_def spec_refresh_def
  refresh_servers_def populate_space_def populate_health_def populate_pools_def
  populate_osds_and_pgs_def populate_counters_def calculate_pool_counters_def
  calculate_osd_counters_def calculate_mds_counters_def calculate_mon_counters_def
  calculate_pg_counters_def Server_delete_def ServiceStatus_delete_def Cluster_save_def
  health_down_client_def quiet_client_def example_env_def example_state_def example_db_def
  example_cluster_def Let_def

text \<open>
  The two orders differ when a step raises. The health request of a quiet cluster times
  out: \<^verbatim>\<open>refresh\<close> has stored the counters and not the space when the exception
  leaves it, the pipeline of the specification the space and not the counters.
\<close>

theorem refresh_order_counterexample:
  "refresh (example_env health_down_client) health_down_client example_state
     \<noteq> spec_refresh (example_env health_down_client) health_down_client example_state
   \<and> (case refresh (example_env health_down_client) health_down_client example_state of
        Inl (e, s) \<Rightarrow> (Some e, cl_space (cluster s), cl_counters (cluster s) = None)
      | Inr s \<Rightarrow> (None, cl_space (cluster s), cl_counters (cluster s) = None))
       = (Some RequestException, None, False)
   \<and> (case spec_refresh (example_env health_down_client) health_down_client example_state of
        Inl (e, s) \<Rightarrow> (Some e, cl_space (cluster s), cl_counters (cluster s) = None)
      | Inr s \<Rightarrow> (None, cl_space (cluster s), cl_counters (cluster s) = None))
       = (Some RequestException,
          Some \<lparr>used_bytes = 1024, capacity_bytes = 4096, free_bytes = 3072\<rparr>, True)"
proof -
  let ?look = "\<lambda>r. case r of
        Inl (e, s) \<Rightarrow> (Some e, cl_space (cluster s), cl_counters (cluster s) = None)
      | Inr s \<Rightarrow> (None, cl_space (cluster s), cl_counters (cluster s) = None)"
  let ?impl = "refresh (example_env health_down_client) health_down_client example_state"
  let ?spec = "spec_refresh (example_env health_down_client) health_down_client example_state"
  have a: "?look ?impl = (Some RequestException, None, False)"
    by (simp add: pass_defs)
  have b: "?look ?spec = (Some RequestException,
          Some \<lparr>used_bytes = 1024, capacity_bytes = 4096, free_bytes = 3072\<rparr>, True)"
    by (simp add: pass_defs)
  have "?impl \<noteq> ?spec"
  proof
    assume "?impl = ?spec"
    then have "?look ?impl = ?look ?spec" by (rule arg_cong)
    then show False unfolding a b by simp
  qed
  then show ?thesis using a b by blast
qed


subsection \<open>A pass that fails\<close>




end
